theory Spec2Isabelle
  imports Main
begin

section \<open>JavaScript values\<close>

text \<open>
  The module \<^verbatim>\<open>src/db/index.ts\<close> moves plain data between its callers and an HTTP
  transport: documents, query arguments, response bodies and the error objects it throws.
  These values are modelled by one type of JSON-like data, extended with
  \<^verbatim>\<open>undefined\<close>. An object is the list of its own enumerable properties in enumeration
  order. Numbers are the integers, as status codes, limits and counts are; fractional
  numbers, and integers too large for a double to hold and print digit by digit, are
  outside the model. Strings are lists of 8-bit characters.
\<close>

datatype json =
    JUndefined
  | JNull
  | JBool bool
  | JNum int
  | JStr string
  | JArr "json list"
  | JObj "(string \<times> json) list"

text \<open>What a rejected promise carries: an object thrown by the module, or a TypeError
  raised by the runtime (reading a property of \<^verbatim>\<open>undefined\<close> or \<^verbatim>\<open>null\<close>,
  converting an object without a usable \<^verbatim>\<open>toString\<close>).\<close>

datatype rejection = Thrown json | TypeError

type_synonym outcome = "rejection + json"

text \<open>\<^verbatim>\<open>x ?? y\<close> tests \<open>nullish x\<close>; \<^verbatim>\<open>x ? a : b\<close> and \<^verbatim>\<open>if (x)\<close> test \<open>truthy x\<close>.\<close>

fun nullish :: "json \<Rightarrow> bool" where
  "nullish JUndefined = True"
| "nullish JNull = True"
| "nullish _ = False"

fun truthy :: "json \<Rightarrow> bool" where
  "truthy JUndefined = False"
| "truthy JNull = False"
| "truthy (JBool b) = b"
| "truthy (JNum n) = (n \<noteq> 0)"
| "truthy (JStr s) = (s \<noteq> [])"
| "truthy (JArr xs) = True"
| "truthy (JObj fs) = True"

definition coalesce :: "json \<Rightarrow> json \<Rightarrow> json" where
  "coalesce a b = (if nullish a then b else a)"

subsection \<open>Decimal numerals\<close>

definition digit_char :: "nat \<Rightarrow> char" where
  "digit_char d = char_of (48 + d)"

fun show_nat :: "nat \<Rightarrow> string" where
  "show_nat n = (if n < 10 then [digit_char n] else show_nat (n div 10) @ [digit_char (n mod 10)])"

declare show_nat.simps [simp del]

definition show_int :: "int \<Rightarrow> string" where
  "show_int i = (if i < 0 then CHR ''-'' # show_nat (nat (- i)) else show_nat (nat i))"

subsection \<open>Conversion to string\<close>

text \<open>
  \<^verbatim>\<open>String(x)\<close> and the interpolation \<^verbatim>\<open>${x}\<close> of a template literal. An array is
  joined with commas, \<^verbatim>\<open>null\<close> and \<^verbatim>\<open>undefined\<close> elements giving the empty string. A
  plain object gives \<^verbatim>\<open>[object Object]\<close> through the inherited \<^verbatim>\<open>toString\<close>; an own
  property of that name holds data and cannot be called, and the conversion raises a
  TypeError.
\<close>

fun to_string :: "json \<Rightarrow> rejection + string"
  and join_elems :: "json list \<Rightarrow> rejection + string" where
  "to_string JUndefined = Inr ''undefined''"
| "to_string JNull = Inr ''null''"
| "to_string (JBool b) = Inr (if b then ''true'' else ''false'')"
| "to_string (JNum n) = Inr (show_int n)"
| "to_string (JStr s) = Inr s"
| "to_string (JArr xs) = join_elems xs"
| "to_string (JObj fs) =
     (if ''toString'' \<in> set (map fst fs) then Inl TypeError else Inr ''[object Object]'')"
| "join_elems [] = Inr ''''"
| "join_elems [x] = (if nullish x then Inr '''' else to_string x)"
| "join_elems (x # y # ys) =
     (case (if nullish x then Inr '''' else to_string x) of
        Inl e \<Rightarrow> Inl e
      | Inr a \<Rightarrow> (case join_elems (y # ys) of
                   Inl e \<Rightarrow> Inl e
                 | Inr b \<Rightarrow> Inr (a @ '','' @ b)))"

subsection \<open>JSON.stringify\<close>

definition hex_char :: "nat \<Rightarrow> char" where
  "hex_char d = (if d < 10 then char_of (48 + d) else char_of (87 + d))"

definition escape_char :: "char \<Rightarrow> string" where
  "escape_char c =
     (if c = CHR 0x22 then [CHR 0x5C, CHR 0x22]
      else if c = CHR 0x5C then [CHR 0x5C, CHR 0x5C]
      else if c = CHR 0x08 then [CHR 0x5C, CHR ''b'']
      else if c = CHR 0x0C then [CHR 0x5C, CHR ''f'']
      else if c = CHR 0x0A then [CHR 0x5C, CHR ''n'']
      else if c = CHR 0x0D then [CHR 0x5C, CHR ''r'']
      else if c = CHR 0x09 then [CHR 0x5C, CHR ''t'']
      else if (of_char c :: nat) < 32
        then [CHR 0x5C, CHR ''u'', CHR ''0'', CHR ''0'',
              hex_char (of_char c div 16), hex_char (of_char c mod 16)]
      else [c])"

definition quote :: "string \<Rightarrow> string" where
  "quote s = CHR 0x22 # concat (map escape_char s) @ [CHR 0x22]"

fun join_with :: "string \<Rightarrow> string list \<Rightarrow> string" where
  "join_with sep [] = ''''"
| "join_with sep [x] = x"
| "join_with sep (x # y # ys) = x @ sep @ join_with sep (y # ys)"

text \<open>
  \<open>stringify v\<close> is \<open>None\<close> where \<^verbatim>\<open>JSON.stringify(v)\<close> is \<^verbatim>\<open>undefined\<close>. Inside an array
  such an element is written \<^verbatim>\<open>null\<close>; inside an object the property is left out.
\<close>

fun stringify :: "json \<Rightarrow> string option"
  and stringify_elems :: "json list \<Rightarrow> string list"
  and stringify_props :: "(string \<times> json) list \<Rightarrow> string list" where
  "stringify JUndefined = None"
| "stringify JNull = Some ''null''"
| "stringify (JBool b) = Some (if b then ''true'' else ''false'')"
| "stringify (JNum n) = Some (show_int n)"
| "stringify (JStr s) = Some (quote s)"
| "stringify (JArr xs) = Some (''['' @ join_with '','' (stringify_elems xs) @ '']'')"
| "stringify (JObj fs) = Some (''{'' @ join_with '','' (stringify_props fs) @ ''}'')"
| "stringify_elems [] = []"
| "stringify_elems (x # xs) =
     (case stringify x of None \<Rightarrow> ''null'' | Some t \<Rightarrow> t) # stringify_elems xs"
| "stringify_props [] = []"
| "stringify_props ((k, v) # fs) =
     (case stringify v of
        None \<Rightarrow> stringify_props fs
      | Some t \<Rightarrow> (quote k @ '':'' @ t) # stringify_props fs)"

definition JSON_stringify :: "json \<Rightarrow> json" where
  "JSON_stringify v = (case stringify v of None \<Rightarrow> JUndefined | Some t \<Rightarrow> JStr t)"

subsection \<open>Objects: own properties, property reads, spread\<close>

text \<open>
  The own enumerable properties that a spread \<^verbatim>\<open>{...v}\<close> copies: the fields of an
  object, the indexed elements of an array, the indexed characters of a string, and
  nothing for the other values.
\<close>

fun own_props :: "json \<Rightarrow> (string \<times> json) list" where
  "own_props (JObj fs) = fs"
| "own_props (JArr xs) = zip (map show_nat [0..<length xs]) xs"
| "own_props (JStr s) = zip (map show_nat [0..<length s]) (map (\<lambda>c. JStr [c]) s)"
| "own_props _ = []"

text \<open>
  A property read \<^verbatim>\<open>v.k\<close>: \<open>read_prop\<close> is its value on a value that has
  properties, \<open>get_prop\<close> the read itself, which raises a TypeError on \<^verbatim>\<open>undefined\<close> and \<^verbatim>\<open>null\<close>.
  Arrays and strings have \<^verbatim>\<open>length\<close> besides their indices. Inherited members are
  functions and not data; none of the names this module reads (\<^verbatim>\<open>data\<close>,
  \<^verbatim>\<open>message\<close>, \<^verbatim>\<open>exception\<close>, \<^verbatim>\<open>exc_type\<close>, \<^verbatim>\<open>name\<close>, \<^verbatim>\<open>length\<close>, \<^verbatim>\<open>0\<close> and the
  names of the query arguments) is inherited.
\<close>

definition own_length :: "json \<Rightarrow> json option" where
  "own_length v =
     (case v of JArr xs \<Rightarrow> Some (JNum (int (length xs)))
              | JStr s \<Rightarrow> Some (JNum (int (length s)))
              | _ \<Rightarrow> None)"

definition read_prop :: "json \<Rightarrow> string \<Rightarrow> json" where
  "read_prop v k =
     (case (if k = ''length'' then own_length v else None) of
        Some n \<Rightarrow> n
      | None \<Rightarrow> (case map_of (own_props v) k of None \<Rightarrow> JUndefined | Some x \<Rightarrow> x))"

definition get_prop :: "json \<Rightarrow> string \<Rightarrow> rejection + json" where
  "get_prop v k = (if nullish v then Inl TypeError else Inr (read_prop v k))"

text \<open>
  Property order. The engine lists the integer-like keys of an object first, in ascending
  order, and then the other keys in the order of their creation. A key is integer-like
  when it is the decimal numeral of an array index (below \<open>2^32 - 1\<close>).
\<close>

definition is_digit :: "char \<Rightarrow> bool" where
  "is_digit c = (48 \<le> (of_char c :: nat) \<and> (of_char c :: nat) \<le> 57)"

definition digits_value :: "string \<Rightarrow> nat" where
  "digits_value ds = foldl (\<lambda>a c. 10 * a + (of_char c - 48)) 0 ds"

definition is_index :: "string \<Rightarrow> bool" where
  "is_index k = (k \<noteq> [] \<and> list_all is_digit k \<and> show_nat (digits_value k) = k
                 \<and> int (digits_value k) < 4294967295)"

definition key_before :: "string \<Rightarrow> string \<Rightarrow> bool" where
  "key_before k k' =
     (is_index k \<and> (if is_index k' then digits_value k < digits_value k' else True))"

text \<open>Writing a property: an existing key keeps its place and takes the new value; a new
  key is created at its place in the property order.\<close>

fun obj_set :: "(string \<times> json) list \<Rightarrow> string \<Rightarrow> json \<Rightarrow> (string \<times> json) list" where
  "obj_set [] k v = [(k, v)]"
| "obj_set ((k', v') # fs) k v =
     (if k' = k then (k, v) # fs
      else if key_before k k' then (k, v) # (k', v') # fs
      else (k', v') # obj_set fs k v)"

text \<open>\<^verbatim>\<open>{...acc, ...v}\<close>: the own properties of \<open>v\<close> are written over \<open>acc\<close> in order.\<close>

definition spread :: "(string \<times> json) list \<Rightarrow> json \<Rightarrow> (string \<times> json) list" where
  "spread acc v = fold (\<lambda>(k, x) obj. obj_set obj k x) (own_props v) acc"

text \<open>A list of properties is that of an object when no key occurs twice and the keys
  stand in property order.\<close>

definition wf_obj :: "(string \<times> json) list \<Rightarrow> bool" where
  "wf_obj fs = sorted_wrt (\<lambda>a b. fst a \<noteq> fst b \<and> \<not> key_before (fst b) (fst a)) fs"

text \<open>
  The comparison \<^verbatim>\<open>v > 0\<close>. A number is compared as it is, \<^verbatim>\<open>true\<close> counts as 1,
  \<^verbatim>\<open>false\<close> and \<^verbatim>\<open>null\<close> as 0, \<^verbatim>\<open>undefined\<close> as NaN. A string, an array or an
  object is first parsed as a numeric literal, with a result that depends on the floating
  point format; these operands are outside the model (\<open>None\<close>).
\<close>

fun gt_zero :: "json \<Rightarrow> bool option" where
  "gt_zero (JNum n) = Some (0 < n)"
| "gt_zero (JBool b) = Some b"
| "gt_zero JNull = Some False"
| "gt_zero JUndefined = Some False"
| "gt_zero _ = None"

section \<open>The HTTP transport\<close>

text \<open>
  The module talks to the server through an Axios instance only. A request is the method,
  the URL, the \<^verbatim>\<open>params\<close> object of the request configuration (absent when no
  configuration is passed) and the body. The promise that Axios returns is fulfilled with
  a response, or rejected with an error that carries the response of the server when
  there is one (a status outside 2xx) and none otherwise (a failure of the network).
  The transport is a parameter of every operation; its state \<open>'s\<close> stands for the server
  and is threaded through the calls.
\<close>

datatype http_method = GET | POST | PUT | DELETE

record request =
  verb :: http_method
  url :: string
  params :: "json option"
  body :: "json option"

record response =
  data :: json
  status :: int
  statusText :: string

datatype axios_result = Fulfilled response | Failed "response option"

type_synonym 's axios = "request \<Rightarrow> 's \<Rightarrow> axios_result \<times> 's"

text \<open>
  \<^verbatim>\<open>promise.then(on_ok).catch(on_err)\<close>. The handlers of this module raise nothing but
  a TypeError in \<open>on_ok\<close>; then \<open>on_err\<close> runs on that TypeError, which has no
  \<^verbatim>\<open>response\<close>, and its read of \<^verbatim>\<open>error.response.data\<close> raises a TypeError again, as
  it does on an Axios error without a response.
\<close>

definition then_catch ::
  "(response \<Rightarrow> outcome) \<Rightarrow> (response \<Rightarrow> outcome) \<Rightarrow> axios_result \<Rightarrow> outcome" where
  "then_catch on_ok on_err r =
     (case r of
        Fulfilled res \<Rightarrow> (case on_ok res of Inr v \<Rightarrow> Inr v | Inl e \<Rightarrow> Inl TypeError)
      | Failed None \<Rightarrow> Inl TypeError
      | Failed (Some res) \<Rightarrow> on_err res)"

section \<open>The error object\<close>

text \<open>\<^verbatim>\<open>error.response.data.exception ?? error.response.data.exc_type ?? ''\<close>\<close>

definition server_exception :: "json \<Rightarrow> rejection + json" where
  "server_exception d =
     (case get_prop d ''exception'' of
        Inl e \<Rightarrow> Inl e
      | Inr a \<Rightarrow>
          if nullish a then
            (case get_prop d ''exc_type'' of
               Inl e \<Rightarrow> Inl e
             | Inr b \<Rightarrow> Inr (coalesce b (JStr '''')))
          else Inr a)"

text \<open>The object literal of every \<^verbatim>\<open>catch\<close> handler: the body of the response is spread
  first, then the four fields are written.\<close>

definition error_object :: "response \<Rightarrow> json \<Rightarrow> json \<Rightarrow> json" where
  "error_object res msg exc =
     JObj (obj_set (obj_set (obj_set (obj_set (spread [] (data res))
       ''httpStatus'' (JNum (status res)))
       ''httpStatusText'' (JStr (statusText res)))
       ''message'' msg)
       ''exception'' exc)"

text \<open>The handler of \<^verbatim>\<open>getDoc\<close>, \<^verbatim>\<open>getDocList\<close>, \<^verbatim>\<open>deleteDoc\<close> and \<^verbatim>\<open>getCount\<close>, with
  a fixed message.\<close>

definition throw_error :: "string \<Rightarrow> response \<Rightarrow> outcome" where
  "throw_error msg res =
     (case server_exception (data res) of
        Inl e \<Rightarrow> Inl e
      | Inr exc \<Rightarrow> Inl (Thrown (error_object res (JStr msg) exc)))"

text \<open>The handler of \<^verbatim>\<open>createDoc\<close> and \<^verbatim>\<open>updateDoc\<close>:
  \<^verbatim>\<open>message: error.response.data.message ?? '...'\<close>.\<close>

definition throw_error_server_message :: "string \<Rightarrow> response \<Rightarrow> outcome" where
  "throw_error_server_message msg res =
     (case get_prop (data res) ''message'' of
        Inl e \<Rightarrow> Inl e
      | Inr m \<Rightarrow>
          (case server_exception (data res) of
             Inl e \<Rightarrow> Inl e
           | Inr exc \<Rightarrow> Inl (Thrown (error_object res (coalesce m (JStr msg)) exc))))"

section \<open>The operations of FrappeDB\<close>

text \<open>The \<^verbatim>\<open>data\<close> field of the response body: \<^verbatim>\<open>(res) => res.data.data\<close>.\<close>

definition unwrap_data :: "response \<Rightarrow> outcome" where
  "unwrap_data res = get_prop (data res) ''data''"

subsection \<open>getDoc\<close>

text \<open>\<^verbatim>\<open>docname: string = ''\<close>: an omitted name is the empty string. The name is
  interpolated into the URL; a TypeError of that conversion rejects the call before any
  request.\<close>

definition getDoc :: "'s axios \<Rightarrow> string \<Rightarrow> json \<Rightarrow> 's \<Rightarrow> outcome \<times> 's" where
  "getDoc ax doctype docname s =
     (case to_string (if docname = JUndefined then JStr '''' else docname) of
        Inl e \<Rightarrow> (Inl e, s)
      | Inr n \<Rightarrow>
          (case ax \<lparr>verb = GET, url = ''/api/resource/'' @ doctype @ ''/'' @ n,
                    params = None, body = None\<rparr> s of
             (r, s') \<Rightarrow>
               (then_catch unwrap_data
                  (throw_error ''There was an error while fetching the document.'') r, s')))"

subsection \<open>getDocList\<close>

text \<open>\<^verbatim>\<open>orderBy ? `${String(orderBy?.field)} ${orderBy?.order ?? 'asc'}` : ''\<close>\<close>

definition order_by_string :: "json \<Rightarrow> rejection + string" where
  "order_by_string orderBy =
     (if truthy orderBy then
        (case to_string (read_prop orderBy ''field'') of
           Inl e \<Rightarrow> Inl e
         | Inr f \<Rightarrow>
             (case to_string (coalesce (read_prop orderBy ''order'') (JStr ''asc'')) of
                Inl e \<Rightarrow> Inl e
              | Inr d \<Rightarrow> Inr (f @ '' '' @ d)))
      else Inr '''')"

text \<open>The \<^verbatim>\<open>params\<close> object: empty without arguments, and otherwise the eight keys of
  the object literal, some of them bound to \<^verbatim>\<open>undefined\<close>.\<close>

definition list_params :: "json \<Rightarrow> rejection + json" where
  "list_params args =
     (if truthy args then
        (let fields = read_prop args ''fields'';
             filters = read_prop args ''filters'';
             orFilters = read_prop args ''orFilters'';
             orderBy = read_prop args ''orderBy'';
             limit = read_prop args ''limit'';
             limit_start = read_prop args ''limit_start'';
             groupBy = read_prop args ''groupBy'';
             asDict = (if read_prop args ''asDict'' = JUndefined then JBool True
                       else read_prop args ''asDict'')
         in case order_by_string orderBy of
              Inl e \<Rightarrow> Inl e
            | Inr orderByString \<Rightarrow>
                Inr (JObj
                  [(''fields'', if truthy fields then JSON_stringify fields else JUndefined),
                   (''filters'', if truthy filters then JSON_stringify filters else JUndefined),
                   (''or_filters'',
                      if truthy orFilters then JSON_stringify orFilters else JUndefined),
                   (''order_by'', JStr orderByString),
                   (''group_by'', groupBy),
                   (''limit'', limit),
                   (''limit_start'', limit_start),
                   (''as_dict'', asDict)]))
      else Inr (JObj []))"

definition getDocList :: "'s axios \<Rightarrow> string \<Rightarrow> json \<Rightarrow> 's \<Rightarrow> outcome \<times> 's" where
  "getDocList ax doctype args s =
     (case list_params args of
        Inl e \<Rightarrow> (Inl e, s)
      | Inr p \<Rightarrow>
          (case ax \<lparr>verb = GET, url = ''/api/resource/'' @ doctype,
                    params = Some p, body = None\<rparr> s of
             (r, s') \<Rightarrow>
               (then_catch unwrap_data
                  (throw_error ''There was an error while fetching the documents.'') r, s')))"

subsection \<open>createDoc, updateDoc, deleteDoc\<close>

definition createDoc :: "'s axios \<Rightarrow> string \<Rightarrow> json \<Rightarrow> 's \<Rightarrow> outcome \<times> 's" where
  "createDoc ax doctype v s =
     (case ax \<lparr>verb = POST, url = ''/api/resource/'' @ doctype,
               params = None, body = Some (JObj (spread [] v))\<rparr> s of
        (r, s') \<Rightarrow>
          (then_catch unwrap_data
             (throw_error_server_message ''There was an error while creating the document.'')
             r, s'))"

definition updateDoc :: "'s axios \<Rightarrow> string \<Rightarrow> json \<Rightarrow> json \<Rightarrow> 's \<Rightarrow> outcome \<times> 's" where
  "updateDoc ax doctype docname v s =
     (case to_string docname of
        Inl e \<Rightarrow> (Inl e, s)
      | Inr n \<Rightarrow>
          (case ax \<lparr>verb = PUT, url = ''/api/resource/'' @ doctype @ ''/'' @ n,
                    params = None, body = Some (JObj (spread [] v))\<rparr> s of
             (r, s') \<Rightarrow>
               (then_catch unwrap_data
                  (throw_error_server_message
                     ''There was an error while updating the document.'') r, s')))"

definition deleteDoc :: "'s axios \<Rightarrow> string \<Rightarrow> json \<Rightarrow> 's \<Rightarrow> outcome \<times> 's" where
  "deleteDoc ax doctype docname s =
     (case to_string docname of
        Inl e \<Rightarrow> (Inl e, s)
      | Inr n \<Rightarrow>
          (case ax \<lparr>verb = DELETE, url = ''/api/resource/'' @ doctype @ ''/'' @ n,
                    params = None, body = None\<rparr> s of
             (r, s') \<Rightarrow>
               (then_catch (\<lambda>res. Inr (data res))
                  (throw_error ''There was an error while deleting the document.'') r, s')))"

subsection \<open>getCount\<close>

text \<open>\<^verbatim>\<open>cache: boolean = false\<close> and \<^verbatim>\<open>debug: boolean = false\<close>: an omitted flag is
  \<^verbatim>\<open>false\<close>.\<close>

definition count_params :: "string \<Rightarrow> json \<Rightarrow> json \<Rightarrow> json \<Rightarrow> json" where
  "count_params doctype filters cache debug =
     (let cache = (if cache = JUndefined then JBool False else cache);
          debug = (if debug = JUndefined then JBool False else debug);
          p0 = [(''doctype'', JStr doctype), (''filters'', JArr [])];
          p1 = (if truthy cache then obj_set p0 ''cache'' cache else p0);
          p2 = (if truthy debug then obj_set p1 ''debug'' debug else p1);
          p3 = (if truthy filters
                then obj_set p2 ''filters''
                       (if truthy filters then JSON_stringify filters else JUndefined)
                else p2)
      in JObj p3)"

definition getCount :: "'s axios \<Rightarrow> string \<Rightarrow> json \<Rightarrow> json \<Rightarrow> json \<Rightarrow> 's \<Rightarrow> outcome \<times> 's" where
  "getCount ax doctype filters cache debug s =
     (case ax \<lparr>verb = GET, url = ''/api/method/frappe.client.get_count'',
               params = Some (count_params doctype filters cache debug), body = None\<rparr> s of
        (r, s') \<Rightarrow>
          (then_catch (\<lambda>res. get_prop (data res) ''message'')
             (throw_error ''There was an error while getting the count.'') r, s'))"

subsection \<open>getLastDoc\<close>

text \<open>\<^verbatim>\<open>queryArgs\<close>: the default, with the arguments of the caller spread over it.\<close>

definition query_args :: "json \<Rightarrow> (string \<times> json) list" where
  "query_args args =
     (let queryArgs = [(''orderBy'', JObj [(''field'', JStr ''creation''),
                                           (''order'', JStr ''desc'')])]
      in if truthy args then spread (spread [] (JObj queryArgs)) args else queryArgs)"

text \<open>\<^verbatim>\<open>{ ...queryArgs, limit: 1, fields: ['name'] }\<close>, the arguments of the list call.\<close>

definition last_doc_args :: "json \<Rightarrow> json" where
  "last_doc_args args =
     JObj (obj_set (obj_set (spread [] (JObj (query_args args)))
       ''limit'' (JNum 1))
       ''fields'' (JArr [JStr ''name'']))"

text \<open>
  The list call is awaited, and its rejection is that of \<^verbatim>\<open>getLastDoc\<close>. Then
  \<^verbatim>\<open>getDocLists.length > 0\<close> decides between \<^verbatim>\<open>getDoc(doctype, getDocLists[0].name)\<close>
  and the empty object. The result is \<open>None\<close> where the comparison is outside the model.
\<close>

definition getLastDoc :: "'s axios \<Rightarrow> string \<Rightarrow> json \<Rightarrow> 's \<Rightarrow> (outcome \<times> 's) option" where
  "getLastDoc ax doctype args s =
     (case getDocList ax doctype (last_doc_args args) s of
        (Inl e, s') \<Rightarrow> Some (Inl e, s')
      | (Inr getDocLists, s') \<Rightarrow>
          (case get_prop getDocLists ''length'' of
             Inl e \<Rightarrow> Some (Inl e, s')
           | Inr len \<Rightarrow>
               (case gt_zero len of
                  None \<Rightarrow> None
                | Some True \<Rightarrow>
                    (case get_prop getDocLists ''0'' of
                       Inl e \<Rightarrow> Some (Inl e, s')
                     | Inr first \<Rightarrow>
                         (case get_prop first ''name'' of
                            Inl e \<Rightarrow> Some (Inl e, s')
                          | Inr n \<Rightarrow> Some (getDoc ax doctype n s')))
                | Some False \<Rightarrow> Some (Inr (JObj []), s'))))"

section \<open>Notions used in the statements\<close>

text \<open>A transport that answers each request by a fixed function and records the requests it
  receives, in order.\<close>

definition recording :: "(request \<Rightarrow> axios_result) \<Rightarrow> request list axios" where
  "recording answer req log = (answer req, log @ [req])"

subsection \<open>The error object as the specification words it\<close>

text \<open>A field of a JSON body is present when the body binds it to a value other than
  \<^verbatim>\<open>null\<close>.\<close>

definition field :: "(string \<times> json) list \<Rightarrow> string \<Rightarrow> json option" where
  "field fs k = (case map_of fs k of None \<Rightarrow> None | Some v \<Rightarrow> if nullish v then None else Some v)"

text \<open>``Preferring the server's \<^verbatim>\<open>exception\<close>, falling back to \<^verbatim>\<open>exc_type\<close>, falling back
  to an empty string.''\<close>

definition spec_exception :: "(string \<times> json) list \<Rightarrow> json" where
  "spec_exception fs =
     (case field fs ''exception'' of
        Some a \<Rightarrow> a
      | None \<Rightarrow> (case field fs ''exc_type'' of Some b \<Rightarrow> b | None \<Rightarrow> JStr ''''))"

text \<open>``The server's own \<^verbatim>\<open>message\<close> field when the server supplied one'', and the text of
  the operation otherwise.\<close>

definition spec_message :: "(string \<times> json) list \<Rightarrow> string \<Rightarrow> json" where
  "spec_message fs dflt = (case field fs ''message'' of Some m \<Rightarrow> m | None \<Rightarrow> JStr dflt)"

text \<open>The shallow merge of the body with the four fields, as a map from keys to values.\<close>

definition merged_error :: "(string \<times> json) list \<Rightarrow> response \<Rightarrow> json \<Rightarrow> (string \<rightharpoonup> json)" where
  "merged_error fs res msg =
     (map_of fs)(''httpStatus'' \<mapsto> JNum (status res),
                 ''httpStatusText'' \<mapsto> JStr (statusText res),
                 ''message'' \<mapsto> msg,
                 ''exception'' \<mapsto> spec_exception fs)"

text \<open>The call is rejected with an object that has exactly the fields of \<open>m\<close>.\<close>

definition rejects_with :: "outcome \<Rightarrow> (string \<rightharpoonup> json) \<Rightarrow> bool" where
  "rejects_with out m = (case out of Inl (Thrown (JObj es)) \<Rightarrow> map_of es = m | _ \<Rightarrow> False)"

text \<open>A field of the thrown object; \<open>None\<close> when nothing of that name was thrown.\<close>

definition thrown_field :: "outcome \<Rightarrow> string \<Rightarrow> json option" where
  "thrown_field out k = (case out of Inl (Thrown (JObj es)) \<Rightarrow> map_of es k | _ \<Rightarrow> None)"

text \<open>The four fields of the thrown object hold what the handler computes from the
  response.\<close>

definition client_fields :: "outcome \<Rightarrow> response \<Rightarrow> json \<Rightarrow> bool" where
  "client_fields out res msg =
     (thrown_field out ''httpStatus'' = Some (JNum (status res))
      \<and> thrown_field out ''httpStatusText'' = Some (JStr (statusText res))
      \<and> thrown_field out ''message'' = Some msg
      \<and> thrown_field out ''exception'' =
          Some (coalesce (read_prop (data res) ''exception'')
                  (coalesce (read_prop (data res) ''exc_type'') (JStr ''''))))"

text \<open>The fields that the spread of a body copies: its own properties, and of a key that
  the list of properties has twice the value that stands last. In an object no key stands
  twice.\<close>

definition body_fields :: "json \<Rightarrow> (string \<rightharpoonup> json)" where
  "body_fields d = map_of (rev (own_props d))"

text \<open>The thrown object is the spread body with the four fields written after it: it has
  every field of the body under any other name, and under the four names it has what the
  handler computes.\<close>

definition written_after_spread :: "outcome \<Rightarrow> response \<Rightarrow> json \<Rightarrow> bool" where
  "written_after_spread out res msg =
     (rejects_with out
        ((body_fields (data res))
           (''httpStatus'' \<mapsto> JNum (status res),
            ''httpStatusText'' \<mapsto> JStr (statusText res),
            ''message'' \<mapsto> msg,
            ''exception'' \<mapsto>
              coalesce (read_prop (data res) ''exception'')
                (coalesce (read_prop (data res) ''exc_type'') (JStr ''''))))
      \<and> client_fields out res msg)"

subsection \<open>Parameters and arguments as maps\<close>

text \<open>The value that a parameter object binds to a key; \<open>None\<close> for a key it does not have,
  and when the call was rejected before it built the object.\<close>

definition param :: "rejection + json \<Rightarrow> string \<Rightarrow> json option" where
  "param r k = (case r of Inr (JObj ps) \<Rightarrow> map_of ps k | _ \<Rightarrow> None)"

definition fields_of :: "json \<Rightarrow> (string \<rightharpoonup> json)" where
  "fields_of v = (case v of JObj ps \<Rightarrow> map_of ps | _ \<Rightarrow> Map.empty)"

subsection \<open>Servers of the examples\<close>

text \<open>The response of a server that does not know the document, and a transport that
  answers every request with it.\<close>

definition not_found :: response where
  "not_found = \<lparr>data = JObj [(''exc_type'', JStr ''DoesNotExistError'')],
                  status = 404, statusText = ''NOT FOUND''\<rparr>"

definition server_404 :: "unit axios" where
  "server_404 req s = (Failed (Some not_found), s)"

text \<open>An error body that itself has the four names of the error object, with a
  \<^verbatim>\<open>null\<close> exception.\<close>

definition conflicting :: response where
  "conflicting =
     \<lparr>data = JObj [(''httpStatus'', JNum 200), (''message'', JStr ''Server says no''),
                   (''exception'', JNull), (''httpStatusText'', JStr ''fine''),
                   (''exc_type'', JStr ''ValidationError'')],
      status = 417, statusText = ''EXPECTATION FAILED''\<rparr>"

definition server_417 :: "unit axios" where
  "server_417 req s = (Failed (Some conflicting), s)"

text \<open>Successful responses: of a deletion, of a creation, of a count, of a list with one
  document and of that document, and of an empty list.\<close>

definition ok_body :: response where
  "ok_body = \<lparr>data = JObj [(''message'', JStr ''ok'')], status = 202, statusText = ''ACCEPTED''\<rparr>"

definition server_ok :: "unit axios" where
  "server_ok req s = (Fulfilled ok_body, s)"

definition created :: response where
  "created =
     \<lparr>data = JObj [(''data'', JObj [(''name'', JStr ''TASK-1''), (''subject'', JStr ''X'')])],
      status = 200, statusText = ''OK''\<rparr>"

definition counted :: response where
  "counted = \<lparr>data = JObj [(''message'', JNum 42)], status = 200, statusText = ''OK''\<rparr>"

definition task_list :: response where
  "task_list = \<lparr>data = JObj [(''data'', JArr [JObj [(''name'', JStr ''TASK-9'')]])],
                 status = 200, statusText = ''OK''\<rparr>"

definition task_9 :: response where
  "task_9 = \<lparr>data = JObj [(''data'', JObj [(''name'', JStr ''TASK-9''),
                                             (''subject'', JStr ''Water the plants'')])],
              status = 200, statusText = ''OK''\<rparr>"

definition empty_list :: response where
  "empty_list = \<lparr>data = JObj [(''data'', JArr [])], status = 200, statusText = ''OK''\<rparr>"

definition task_server :: "request \<Rightarrow> axios_result" where
  "task_server req =
     (if url req = ''/api/resource/Task'' then Fulfilled task_list else Fulfilled task_9)"

section \<open>Properties of the object operations\<close>

lemma map_of_obj_set: "map_of (obj_set fs k v) = (map_of fs)(k \<mapsto> v)"
  by (induction fs k v rule: obj_set.induct) (auto simp: fun_upd_twist)

lemma obj_set_new:
  "\<forall>p \<in> set acc. fst p \<noteq> k \<and> \<not> key_before k (fst p) \<Longrightarrow> obj_set acc k v = acc @ [(k, v)]"
  by (induction acc) auto

lemma fold_obj_set_wf:
  "wf_obj (acc @ fs) \<Longrightarrow> fold (\<lambda>(k, x) obj. obj_set obj k x) fs acc = acc @ fs"
proof (induction fs arbitrary: acc)
  case Nil
  then show ?case by simp
next
  case (Cons p fs)
  obtain k x where p: "p = (k, x)" by (cases p)
  from Cons.prems have new: "\<forall>q \<in> set acc. fst q \<noteq> k \<and> \<not> key_before k (fst q)"
    by (auto simp: wf_obj_def p sorted_wrt_append)
  from Cons.prems have "wf_obj ((acc @ [(k, x)]) @ fs)" by (simp add: p)
  then have "fold (\<lambda>(k, x) obj. obj_set obj k x) fs (acc @ [(k, x)]) = (acc @ [(k, x)]) @ fs"
    by (rule Cons.IH)
  then show ?case by (simp add: p obj_set_new [OF new])
qed

lemma spread_object: "wf_obj fs \<Longrightarrow> spread [] (JObj fs) = fs"
  using fold_obj_set_wf [of "[]" fs] by (simp add: spread_def)

lemma map_of_fold_obj_set:
  "map_of (fold (\<lambda>(k, x) obj. obj_set obj k x) ps acc) = map_of acc ++ map_of (rev ps)"
  by (induction ps arbitrary: acc) (auto simp: map_of_obj_set map_add_def fun_eq_iff split: option.splits)

lemma map_of_spread: "map_of (spread acc v) = map_of acc ++ map_of (rev (own_props v))"
  by (simp add: spread_def map_of_fold_obj_set)

lemma map_of_rev_distinct: "distinct (map fst ps) \<Longrightarrow> map_of (rev ps) = map_of ps"
proof (induction ps)
  case Nil
  then show ?case by simp
next
  case (Cons p ps)
  then have "map_of ps (fst p) = None" by (simp add: map_of_eq_None_iff)
  with Cons show ?case
    by (cases p) (auto simp: map_add_def fun_eq_iff split: option.splits)
qed

lemma map_of_spread_object:
  "distinct (map fst fs) \<Longrightarrow> map_of (spread [] (JObj fs)) = map_of fs"
  by (simp add: map_of_spread map_of_rev_distinct)

lemma then_catch_Failed: "then_catch on_ok on_err (Failed (Some res)) = on_err res"
  by (simp add: then_catch_def)

lemma then_catch_no_response: "then_catch on_ok on_err (Failed None) = Inl TypeError"
  by (simp add: then_catch_def)

lemma then_catch_get_prop:
  "then_catch (\<lambda>res. get_prop (data res) k) on_err (Fulfilled res) = get_prop (data res) k"
  by (simp add: then_catch_def get_prop_def)

lemma server_exception_value:
  "\<not> nullish d \<Longrightarrow>
   server_exception d =
     Inr (coalesce (read_prop d ''exception'') (coalesce (read_prop d ''exc_type'') (JStr '''')))"
  by (simp add: server_exception_def get_prop_def coalesce_def)

lemma throw_error_value:
  "\<not> nullish (data res) \<Longrightarrow>
   throw_error msg res =
     Inl (Thrown (error_object res (JStr msg)
       (coalesce (read_prop (data res) ''exception'')
          (coalesce (read_prop (data res) ''exc_type'') (JStr '''')))))"
  by (simp add: throw_error_def server_exception_value)

lemma throw_error_server_message_value:
  "\<not> nullish (data res) \<Longrightarrow>
   throw_error_server_message msg res =
     Inl (Thrown (error_object res (coalesce (read_prop (data res) ''message'') (JStr msg))
       (coalesce (read_prop (data res) ''exception'')
          (coalesce (read_prop (data res) ''exc_type'') (JStr '''')))))"
  by (simp add: throw_error_server_message_def server_exception_value get_prop_def)

lemma read_prop_object:
  "k \<noteq> ''length'' \<Longrightarrow> read_prop (JObj fs) k = (case map_of fs k of None \<Rightarrow> JUndefined | Some v \<Rightarrow> v)"
  by (simp add: read_prop_def)

lemma spec_exception_eq:
  "coalesce (read_prop (JObj fs) ''exception'') (coalesce (read_prop (JObj fs) ''exc_type'') (JStr ''''))
     = spec_exception fs"
  by (auto simp: spec_exception_def field_def read_prop_def own_length_def coalesce_def split: option.splits)

lemma spec_message_eq:
  "coalesce (read_prop (JObj fs) ''message'') (JStr msg) = spec_message fs msg"
  by (auto simp: spec_message_def field_def read_prop_def own_length_def coalesce_def split: option.splits)

lemma rejects_with_error_object:
  "distinct (map fst fs) \<Longrightarrow> data res = JObj fs \<Longrightarrow>
   rejects_with (Inl (Thrown (error_object res msg (spec_exception fs)))) (merged_error fs res msg)"
  by (simp add: rejects_with_def error_object_def merged_error_def map_of_obj_set map_of_spread_object)

section \<open>The request of each operation\<close>

lemma getDoc_request:
  assumes "to_string docname = Inr n"
  shows "getDoc ax doctype docname s =
    (let r = ax \<lparr>verb = GET,
                  url = ''/api/resource/'' @ doctype @ ''/'' @ (if docname = JUndefined then '''' else n),
                  params = None, body = None\<rparr> s
     in (then_catch unwrap_data
           (throw_error ''There was an error while fetching the document.'') (fst r), snd r))"
  using assms by (auto simp: getDoc_def Let_def case_prod_beta)

lemma getDocList_request:
  assumes "list_params args = Inr p"
  shows "getDocList ax doctype args s =
    (let r = ax \<lparr>verb = GET, url = ''/api/resource/'' @ doctype,
                  params = Some p, body = None\<rparr> s
     in (then_catch unwrap_data
           (throw_error ''There was an error while fetching the documents.'') (fst r), snd r))"
  using assms by (simp add: getDocList_def Let_def case_prod_beta)

lemma createDoc_request:
  "createDoc ax doctype v s =
    (let r = ax \<lparr>verb = POST, url = ''/api/resource/'' @ doctype,
                  params = None, body = Some (JObj (spread [] v))\<rparr> s
     in (then_catch unwrap_data
           (throw_error_server_message ''There was an error while creating the document.'')
           (fst r), snd r))"
  by (simp add: createDoc_def Let_def case_prod_beta)

lemma updateDoc_request:
  assumes "to_string docname = Inr n"
  shows "updateDoc ax doctype docname v s =
    (let r = ax \<lparr>verb = PUT, url = ''/api/resource/'' @ doctype @ ''/'' @ n,
                  params = None, body = Some (JObj (spread [] v))\<rparr> s
     in (then_catch unwrap_data
           (throw_error_server_message ''There was an error while updating the document.'')
           (fst r), snd r))"
  using assms by (simp add: updateDoc_def Let_def case_prod_beta)

lemma deleteDoc_request:
  assumes "to_string docname = Inr n"
  shows "deleteDoc ax doctype docname s =
    (let r = ax \<lparr>verb = DELETE, url = ''/api/resource/'' @ doctype @ ''/'' @ n,
                  params = None, body = None\<rparr> s
     in (then_catch (\<lambda>res. Inr (data res))
           (throw_error ''There was an error while deleting the document.'') (fst r), snd r))"
  using assms by (simp add: deleteDoc_def Let_def case_prod_beta)

lemma getCount_request:
  "getCount ax doctype filters cache debug s =
    (let r = ax \<lparr>verb = GET, url = ''/api/method/frappe.client.get_count'',
                  params = Some (count_params doctype filters cache debug), body = None\<rparr> s
     in (then_catch (\<lambda>res. get_prop (data res) ''message'')
           (throw_error ''There was an error while getting the count.'') (fst r), snd r))"
  by (simp add: getCount_def Let_def case_prod_beta)

lemma rejects_with_throw_error:
  assumes "data res = JObj fs" and "distinct (map fst fs)"
  shows "rejects_with (throw_error msg res) (merged_error fs res (JStr msg))"
  using assms rejects_with_error_object [OF assms(2,1), of "JStr msg"]
  by (simp add: throw_error_value spec_exception_eq)

lemma rejects_with_throw_error_server_message:
  assumes "data res = JObj fs" and "distinct (map fst fs)"
  shows "rejects_with (throw_error_server_message msg res) (merged_error fs res (spec_message fs msg))"
  using assms rejects_with_error_object [OF assms(2,1), of "spec_message fs msg"]
  by (simp add: throw_error_server_message_value spec_exception_eq spec_message_eq)

section \<open>Keys, order and well-formed objects\<close>

lemma key_before_name [simp]: "\<not> list_all is_digit k \<Longrightarrow> key_before k k' = False"
  by (simp add: key_before_def is_index_def)

lemma key_before_later:
  "key_before k k' \<Longrightarrow> \<not> key_before b k' \<Longrightarrow> \<not> key_before b k \<and> b \<noteq> k"
  by (auto simp: key_before_def split: if_splits)

lemma key_before_asym: "key_before k k' \<Longrightarrow> \<not> key_before k' k"
  by (auto simp: key_before_def split: if_splits)

lemma set_obj_set: "x \<in> set (obj_set fs k v) \<Longrightarrow> x = (k, v) \<or> x \<in> set fs"
  by (induction fs k v rule: obj_set.induct) (auto split: if_splits)

lemma wf_obj_set: "wf_obj fs \<Longrightarrow> wf_obj (obj_set fs k v)"
proof (induction fs k v rule: obj_set.induct)
  case (1 k v)
  then show ?case by (simp add: wf_obj_def)
next
  case (2 k' v' fs k v)
  show ?case
  proof (cases "k' = k")
    case True
    with 2 show ?thesis by (simp add: wf_obj_def)
  next
    case False
    show ?thesis
    proof (cases "key_before k k'")
      case True
      with 2(2) False show ?thesis
        using key_before_later [OF True] key_before_asym [OF True] by (auto simp: wf_obj_def)
    next
      case before: False
      from 2(2) have "wf_obj fs" by (simp add: wf_obj_def)
      with 2(1) False before have "wf_obj (obj_set fs k v)" by simp
      with 2(2) False before show ?thesis
        by (auto simp: wf_obj_def dest!: set_obj_set)
    qed
  qed
qed

lemma wf_obj_fold:
  "wf_obj acc \<Longrightarrow> wf_obj (fold (\<lambda>(k, x) obj. obj_set obj k x) ps acc)"
  by (induction ps arbitrary: acc) (auto simp: wf_obj_set)

lemma wf_obj_spread: "wf_obj acc \<Longrightarrow> wf_obj (spread acc v)"
  by (simp add: spread_def wf_obj_fold)

section \<open>Parameters and arguments\<close>

lemma JSON_stringify_array:
  "JSON_stringify (JArr xs) = JStr (''['' @ join_with '','' (stringify_elems xs) @ '']'')"
  by (simp add: JSON_stringify_def)

lemma stringify_name: "JSON_stringify (JArr [JStr ''name'']) = JStr ''[\"name\"]''"
  by code_simp

lemma stringify_name_age:
  "JSON_stringify (JArr [JStr ''name'', JStr ''age'']) = JStr ''[\"name\",\"age\"]''"
  by code_simp

lemma stringify_age_filter:
  "JSON_stringify (JArr [JArr [JStr ''age'', JStr ''>'', JNum 18]]) = JStr ''[[\"age\",\">\",18]]''"
  by code_simp

lemma stringify_status_filter:
  "JSON_stringify (JArr [JArr [JStr ''status'', JStr ''='', JStr ''Open'']]) =
     JStr ''[[\"status\",\"=\",\"Open\"]]''"
  by code_simp

lemma list_params_object:
  "list_params (JObj fs) =
     (case order_by_string (read_prop (JObj fs) ''orderBy'') of
        Inl e \<Rightarrow> Inl e
      | Inr orderByString \<Rightarrow>
          Inr (JObj
            [(''fields'', if truthy (read_prop (JObj fs) ''fields'')
                          then JSON_stringify (read_prop (JObj fs) ''fields'') else JUndefined),
             (''filters'', if truthy (read_prop (JObj fs) ''filters'')
                           then JSON_stringify (read_prop (JObj fs) ''filters'') else JUndefined),
             (''or_filters'', if truthy (read_prop (JObj fs) ''orFilters'')
                              then JSON_stringify (read_prop (JObj fs) ''orFilters'')
                              else JUndefined),
             (''order_by'', JStr orderByString),
             (''group_by'', read_prop (JObj fs) ''groupBy''),
             (''limit'', read_prop (JObj fs) ''limit''),
             (''limit_start'', read_prop (JObj fs) ''limit_start''),
             (''as_dict'', if read_prop (JObj fs) ''asDict'' = JUndefined then JBool True
                           else read_prop (JObj fs) ''asDict'')]))"
  by (simp add: list_params_def Let_def)

lemma wf_obj_query_args: "wf_obj (query_args args)"
proof (cases "truthy args")
  case True
  have "wf_obj []" by (simp add: wf_obj_def)
  then show ?thesis by (simp add: query_args_def True wf_obj_spread)
next
  case False
  then show ?thesis by (simp add: query_args_def wf_obj_def)
qed

lemma last_doc_args_absent:
  "\<not> truthy args \<Longrightarrow>
   last_doc_args args =
     JObj [(''orderBy'', JObj [(''field'', JStr ''creation''), (''order'', JStr ''desc'')]),
           (''limit'', JNum 1), (''fields'', JArr [JStr ''name''])]"
  by (simp add: last_doc_args_def query_args_def spread_def is_digit_def)

lemma fields_of_last_doc_args:
  "distinct (map fst fs) \<Longrightarrow>
   fields_of (last_doc_args (JObj fs)) =
     ([''orderBy'' \<mapsto> JObj [(''field'', JStr ''creation''), (''order'', JStr ''desc'')]]
        ++ map_of fs)(''limit'' \<mapsto> JNum 1, ''fields'' \<mapsto> JArr [JStr ''name''])"
  by (simp add: fields_of_def last_doc_args_def map_of_obj_set
      spread_object [OF wf_obj_query_args])
     (simp add: query_args_def map_of_spread map_of_rev_distinct)

lemma list_params_last_doc:
  "list_params (last_doc_args JUndefined) = Inr (JObj
     [(''fields'', JStr ''[\"name\"]''), (''filters'', JUndefined),
      (''or_filters'', JUndefined), (''order_by'', JStr ''creation desc''),
      (''group_by'', JUndefined), (''limit'', JNum 1),
      (''limit_start'', JUndefined), (''as_dict'', JBool True)])"
  by (simp add: last_doc_args_absent list_params_object order_by_string_def read_prop_def
      coalesce_def stringify_name)

section \<open>The steps of getLastDoc\<close>

lemma show_nat_0: "show_nat 0 = ''0''"
  by code_simp

lemma get_prop_first: "get_prop (JArr (x # xs)) ''0'' = Inr x"
  by (simp add: get_prop_def read_prop_def upt_conv_Cons show_nat_0 del: upt_Suc)

lemma get_prop_length: "get_prop (JArr xs) ''length'' = Inr (JNum (int (length xs)))"
  by (simp add: get_prop_def read_prop_def own_length_def)

lemma getLastDoc_first:
  assumes "fst (getDocList ax doctype (last_doc_args args) s) = Inr (JArr (x # xs))"
    and "get_prop x ''name'' = Inr n"
  shows "getLastDoc ax doctype args s =
     Some (getDoc ax doctype n (snd (getDocList ax doctype (last_doc_args args) s)))"
  using assms
  by (cases "getDocList ax doctype (last_doc_args args) s")
     (simp add: getLastDoc_def get_prop_first get_prop_length)

lemma getLastDoc_rejected:
  assumes "fst (getDocList ax doctype (last_doc_args args) s) = Inl e"
  shows "getLastDoc ax doctype args s =
     Some (Inl e, snd (getDocList ax doctype (last_doc_args args) s))"
  using assms
  by (cases "getDocList ax doctype (last_doc_args args) s") (simp add: getLastDoc_def)

section \<open>The fields of the error object\<close>

lemma client_fields_error_object:
  "client_fields (Inl (Thrown (error_object res msg
      (coalesce (read_prop (data res) ''exception'')
         (coalesce (read_prop (data res) ''exc_type'') (JStr '''')))))) res msg"
  by (simp add: client_fields_def thrown_field_def error_object_def map_of_obj_set)

lemma body_fields_object: "distinct (map fst fs) \<Longrightarrow> body_fields (JObj fs) = map_of fs"
  by (simp add: body_fields_def map_of_rev_distinct)

lemma written_after_spread_error_object:
  "written_after_spread (Inl (Thrown (error_object res msg
      (coalesce (read_prop (data res) ''exception'')
         (coalesce (read_prop (data res) ''exc_type'') (JStr '''')))))) res msg"
proof -
  have "map_of (spread [] (data res)) = body_fields (data res)"
    by (simp add: map_of_spread body_fields_def)
  then have "rejects_with (Inl (Thrown (error_object res msg
      (coalesce (read_prop (data res) ''exception'')
         (coalesce (read_prop (data res) ''exc_type'') (JStr ''''))))))
      ((body_fields (data res))
         (''httpStatus'' \<mapsto> JNum (status res),
          ''httpStatusText'' \<mapsto> JStr (statusText res),
          ''message'' \<mapsto> msg,
          ''exception'' \<mapsto>
            coalesce (read_prop (data res) ''exception'')
              (coalesce (read_prop (data res) ''exc_type'') (JStr ''''))))"
    by (simp add: rejects_with_def error_object_def map_of_obj_set)
  then show ?thesis
    by (simp add: written_after_spread_def client_fields_error_object)
qed

section \<open>The error object of a rejected call\<close>

text \<open>
  C1. When the server answers with a response outside 2xx whose body is a JSON object, each
  of the six operations rejects with an object that holds the fields of the body together
  with \<^verbatim>\<open>httpStatus\<close> (the status code), \<^verbatim>\<open>httpStatusText\<close> (the status text),
  \<^verbatim>\<open>message\<close> and \<^verbatim>\<open>exception\<close>. The message is the fixed text of the operation; for
  \<^verbatim>\<open>createDoc\<close> and \<^verbatim>\<open>updateDoc\<close> it is the \<^verbatim>\<open>message\<close> of the body when present. The
  exception is the \<^verbatim>\<open>exception\<close> of the body when present, else its \<^verbatim>\<open>exc_type\<close> when
  present, else the empty string. A field is present when the body binds it to a value
  other than \<^verbatim>\<open>null\<close>, which is the test of the operator \<^verbatim>\<open>??\<close>. The calls are those that
  reach the transport: the document name converts to a string and the list arguments give
  a parameter object.
\<close>

theorem error_envelope:
  assumes srv: "\<And>req. fst (ax req s) = Failed (Some res)"
    and body: "data res = JObj fs" "distinct (map fst fs)"
    and name: "to_string docname = Inr n"
    and args: "list_params args = Inr p"
  shows
    "rejects_with (fst (getDoc ax doctype docname s))
       (merged_error fs res (JStr ''There was an error while fetching the document.''))
   \<and> rejects_with (fst (getDocList ax doctype args s))
       (merged_error fs res (JStr ''There was an error while fetching the documents.''))
   \<and> rejects_with (fst (createDoc ax doctype v s))
       (merged_error fs res (spec_message fs ''There was an error while creating the document.''))
   \<and> rejects_with (fst (updateDoc ax doctype docname v s))
       (merged_error fs res (spec_message fs ''There was an error while updating the document.''))
   \<and> rejects_with (fst (deleteDoc ax doctype docname s))
       (merged_error fs res (JStr ''There was an error while deleting the document.''))
   \<and> rejects_with (fst (getCount ax doctype filters cache debug s))
       (merged_error fs res (JStr ''There was an error while getting the count.''))"
proof (intro conjI)
  show "rejects_with (fst (getDoc ax doctype docname s))
       (merged_error fs res (JStr ''There was an error while fetching the document.''))"
    by (simp add: getDoc_request [OF name] Let_def srv then_catch_Failed
        rejects_with_throw_error [OF body])
  show "rejects_with (fst (getDocList ax doctype args s))
       (merged_error fs res (JStr ''There was an error while fetching the documents.''))"
    by (simp add: getDocList_request [OF args] Let_def srv then_catch_Failed
        rejects_with_throw_error [OF body])
  show "rejects_with (fst (createDoc ax doctype v s))
       (merged_error fs res (spec_message fs ''There was an error while creating the document.''))"
    by (simp add: createDoc_request Let_def srv then_catch_Failed
        rejects_with_throw_error_server_message [OF body])
  show "rejects_with (fst (updateDoc ax doctype docname v s))
       (merged_error fs res (spec_message fs ''There was an error while updating the document.''))"
    by (simp add: updateDoc_request [OF name] Let_def srv then_catch_Failed
        rejects_with_throw_error_server_message [OF body])
  show "rejects_with (fst (deleteDoc ax doctype docname s))
       (merged_error fs res (JStr ''There was an error while deleting the document.''))"
    by (simp add: deleteDoc_request [OF name] Let_def srv then_catch_Failed
        rejects_with_throw_error [OF body])
  show "rejects_with (fst (getCount ax doctype filters cache debug s))
       (merged_error fs res (JStr ''There was an error while getting the count.''))"
    by (simp add: getCount_request Let_def srv then_catch_Failed
        rejects_with_throw_error [OF body])
qed


text \<open>The response 404 with the body \<^verbatim>\<open>{"exc_type":"DoesNotExistError"}\<close>.\<close>

theorem error_envelope_witness:
  "(\<forall>req. fst (server_404 req ()) = Failed (Some not_found))
   \<and> data not_found = JObj [(''exc_type'', JStr ''DoesNotExistError'')]
   \<and> distinct (map fst [(''exc_type'', JStr ''DoesNotExistError'')])
   \<and> to_string (JStr ''TASK-1'') = Inr ''TASK-1''
   \<and> list_params JUndefined = Inr (JObj [])
   \<and> rejects_with (fst (getDoc server_404 ''Task'' (JStr ''TASK-1'') ()))
        [''exc_type'' \<mapsto> JStr ''DoesNotExistError'', ''httpStatus'' \<mapsto> JNum 404,
         ''httpStatusText'' \<mapsto> JStr ''NOT FOUND'',
         ''message'' \<mapsto> JStr ''There was an error while fetching the document.'',
         ''exception'' \<mapsto> JStr ''DoesNotExistError'']
   \<and> rejects_with (fst (getDocList server_404 ''Task'' JUndefined ()))
        [''exc_type'' \<mapsto> JStr ''DoesNotExistError'', ''httpStatus'' \<mapsto> JNum 404,
         ''httpStatusText'' \<mapsto> JStr ''NOT FOUND'',
         ''message'' \<mapsto> JStr ''There was an error while fetching the documents.'',
         ''exception'' \<mapsto> JStr ''DoesNotExistError'']
   \<and> rejects_with (fst (getCount server_404 ''Task'' JUndefined JUndefined JUndefined ()))
        [''exc_type'' \<mapsto> JStr ''DoesNotExistError'', ''httpStatus'' \<mapsto> JNum 404,
         ''httpStatusText'' \<mapsto> JStr ''NOT FOUND'',
         ''message'' \<mapsto> JStr ''There was an error while getting the count.'',
         ''exception'' \<mapsto> JStr ''DoesNotExistError'']"
proof -
  have srv: "\<And>req. fst (server_404 req ()) = Failed (Some not_found)"
    by (simp add: server_404_def)
  have body: "data not_found = JObj [(''exc_type'', JStr ''DoesNotExistError'')]"
    by (simp add: not_found_def)
  have keys: "distinct (map fst [(''exc_type'', JStr ''DoesNotExistError'')])"
    by simp
  have name: "to_string (JStr ''TASK-1'') = Inr ''TASK-1''"
    by simp
  have args: "list_params JUndefined = Inr (JObj [])"
    by (simp add: list_params_def)
  show ?thesis
    using error_envelope [where ax = server_404 and s = "()" and doctype = "''Task''"
        and filters = JUndefined and cache = JUndefined and debug = JUndefined,
        OF srv body keys name args]
    by (simp add: srv body name args merged_error_def spec_exception_def field_def
        not_found_def)
qed

section \<open>The query of getLastDoc\<close>

text \<open>
  C2. Without arguments of the caller the list call of \<^verbatim>\<open>getLastDoc\<close> gets the default
  order, \<^verbatim>\<open>limit = 1\<close> and \<^verbatim>\<open>fields = ["name"]\<close>. With arguments it gets the default
  overridden key by key by the arguments (an \<^verbatim>\<open>orderBy\<close> of the caller replaces the default
  as a whole), and then \<^verbatim>\<open>limit\<close> and \<^verbatim>\<open>fields\<close> forced over whatever the caller gave.
  When that list call resolves to a list that is not empty, \<^verbatim>\<open>getLastDoc\<close> is the call of
  \<^verbatim>\<open>getDoc\<close> with the \<^verbatim>\<open>name\<close> of its first element, issued after the list call.
\<close>

theorem last_doc_query:
  "(\<not> truthy args \<longrightarrow>
      last_doc_args args =
        JObj [(''orderBy'', JObj [(''field'', JStr ''creation''), (''order'', JStr ''desc'')]),
              (''limit'', JNum 1), (''fields'', JArr [JStr ''name''])])
   \<and> (distinct (map fst fs) \<longrightarrow>
      fields_of (last_doc_args (JObj fs)) =
        ([''orderBy'' \<mapsto> JObj [(''field'', JStr ''creation''), (''order'', JStr ''desc'')]]
           ++ map_of fs)(''limit'' \<mapsto> JNum 1, ''fields'' \<mapsto> JArr [JStr ''name'']))
   \<and> (fst (getDocList ax doctype (last_doc_args args) s) = Inr (JArr (x # xs))
        \<and> get_prop x ''name'' = Inr n \<longrightarrow>
      getLastDoc ax doctype args s =
        Some (getDoc ax doctype n (snd (getDocList ax doctype (last_doc_args args) s))))"
  using last_doc_args_absent [of args] fields_of_last_doc_args [of fs]
    getLastDoc_first [of ax doctype args s x xs n]
  by blast

text \<open>A caller that asks for the latest modified document with five results and all fields;
  and a server with one task, called without arguments.\<close>

theorem last_doc_query_witness:
  "\<not> truthy JUndefined
   \<and> distinct (map fst [(''orderBy'', JObj [(''field'', JStr ''modified'')]),
                         (''limit'', JNum 5), (''fields'', JArr [JStr ''*''])])
   \<and> fields_of (last_doc_args (JObj [(''orderBy'', JObj [(''field'', JStr ''modified'')]),
                                      (''limit'', JNum 5), (''fields'', JArr [JStr ''*''])])) =
        [''orderBy'' \<mapsto> JObj [(''field'', JStr ''modified'')], ''limit'' \<mapsto> JNum 1,
         ''fields'' \<mapsto> JArr [JStr ''name'']]
   \<and> fst (getDocList (recording task_server) ''Task'' (last_doc_args JUndefined) []) =
        Inr (JArr [JObj [(''name'', JStr ''TASK-9'')]])
   \<and> get_prop (JObj [(''name'', JStr ''TASK-9'')]) ''name'' = Inr (JStr ''TASK-9'')
   \<and> getLastDoc (recording task_server) ''Task'' JUndefined [] =
        Some (Inr (JObj [(''name'', JStr ''TASK-9''), (''subject'', JStr ''Water the plants'')]),
          [\<lparr>verb = GET, url = ''/api/resource/Task'',
             params = Some (JObj
               [(''fields'', JStr ''[\"name\"]''), (''filters'', JUndefined),
                (''or_filters'', JUndefined), (''order_by'', JStr ''creation desc''),
                (''group_by'', JUndefined), (''limit'', JNum 1),
                (''limit_start'', JUndefined), (''as_dict'', JBool True)]),
             body = None\<rparr>,
           \<lparr>verb = GET, url = ''/api/resource/Task/TASK-9'', params = None, body = None\<rparr>])"
proof -
  have absent: "\<not> truthy JUndefined"
    by simp
  have keys: "distinct (map fst [(''orderBy'', JObj [(''field'', JStr ''modified'')]),
                         (''limit'', JNum 5), (''fields'', JArr [JStr ''*''])])"
    by simp
  have first: "fst (getDocList (recording task_server) ''Task'' (last_doc_args JUndefined) []) =
        Inr (JArr [JObj [(''name'', JStr ''TASK-9'')]])"
    by (simp add: getDocList_def list_params_last_doc recording_def task_server_def
        task_list_def then_catch_def unwrap_data_def get_prop_def read_prop_def)
  have name: "get_prop (JObj [(''name'', JStr ''TASK-9'')]) ''name'' = Inr (JStr ''TASK-9'')"
    by (simp add: get_prop_def read_prop_def)
  have "fields_of (last_doc_args (JObj [(''orderBy'', JObj [(''field'', JStr ''modified'')]),
                                      (''limit'', JNum 5), (''fields'', JArr [JStr ''*''])])) =
      ([''orderBy'' \<mapsto> JObj [(''field'', JStr ''creation''), (''order'', JStr ''desc'')]]
         ++ map_of [(''orderBy'', JObj [(''field'', JStr ''modified'')]),
                    (''limit'', JNum 5), (''fields'', JArr [JStr ''*''])])
      (''limit'' \<mapsto> JNum 1, ''fields'' \<mapsto> JArr [JStr ''name''])"
    by (rule last_doc_query [where fs = "[(''orderBy'', JObj [(''field'', JStr ''modified'')]),
                         (''limit'', JNum 5), (''fields'', JArr [JStr ''*''])]",
          THEN conjunct2, THEN conjunct1, rule_format, OF keys])
  also have "\<dots> = [''orderBy'' \<mapsto> JObj [(''field'', JStr ''modified'')], ''limit'' \<mapsto> JNum 1,
         ''fields'' \<mapsto> JArr [JStr ''name'']]"
    by (auto simp: fun_eq_iff map_add_def)
  finally have merged:
    "fields_of (last_doc_args (JObj [(''orderBy'', JObj [(''field'', JStr ''modified'')]),
                                      (''limit'', JNum 5), (''fields'', JArr [JStr ''*''])])) =
        [''orderBy'' \<mapsto> JObj [(''field'', JStr ''modified'')], ''limit'' \<mapsto> JNum 1,
         ''fields'' \<mapsto> JArr [JStr ''name'']]" .
  have "getLastDoc (recording task_server) ''Task'' JUndefined [] =
      Some (getDoc (recording task_server) ''Task'' (JStr ''TASK-9'')
        (snd (getDocList (recording task_server) ''Task'' (last_doc_args JUndefined) [])))"
    using last_doc_query [where ax = "recording task_server" and doctype = "''Task''"
        and args = JUndefined and s = "[]" and n = "JStr ''TASK-9''"
        and x = "JObj [(''name'', JStr ''TASK-9'')]" and xs = "[]"] first name
    by simp
  then have "getLastDoc (recording task_server) ''Task'' JUndefined [] =
        Some (Inr (JObj [(''name'', JStr ''TASK-9''), (''subject'', JStr ''Water the plants'')]),
          [\<lparr>verb = GET, url = ''/api/resource/Task'',
             params = Some (JObj
               [(''fields'', JStr ''[\"name\"]''), (''filters'', JUndefined),
                (''or_filters'', JUndefined), (''order_by'', JStr ''creation desc''),
                (''group_by'', JUndefined), (''limit'', JNum 1),
                (''limit_start'', JUndefined), (''as_dict'', JBool True)]),
             body = None\<rparr>,
           \<lparr>verb = GET, url = ''/api/resource/Task/TASK-9'', params = None, body = None\<rparr>])"
    by (simp add: getDoc_def getDocList_def list_params_last_doc recording_def task_server_def
        task_9_def then_catch_def unwrap_data_def get_prop_def read_prop_def)
  with absent keys merged first name show ?thesis
    by blast
qed

section \<open>The URL of a call without a name\<close>

text \<open>
  C3. The specification lets \<^verbatim>\<open>updateDoc\<close> with a \<^verbatim>\<open>null\<close> name, and \<^verbatim>\<open>deleteDoc\<close> with
  a \<^verbatim>\<open>null\<close> or omitted name, end the URL with an empty segment after the doctype. The
  template literal \<^verbatim>\<open>`/api/resource/${doctype}/${docname}`\<close> converts the name to a
  string instead: for every doctype the one request of these calls goes to a URL that
  ends with \<^verbatim>\<open>/null\<close>, respectively \<^verbatim>\<open>/undefined\<close>. Only \<^verbatim>\<open>getDoc\<close>, whose parameter has the
  default \<^verbatim>\<open>''\<close>, sends the empty segment for an omitted name.
\<close>

theorem null_name_segment:
  "snd (updateDoc (recording answer) doctype JNull v []) =
     [\<lparr>verb = PUT, url = ''/api/resource/'' @ doctype @ ''/null'', params = None,
       body = Some (JObj (spread [] v))\<rparr>]
   \<and> snd (deleteDoc (recording answer) doctype JNull []) =
     [\<lparr>verb = DELETE, url = ''/api/resource/'' @ doctype @ ''/null'', params = None,
       body = None\<rparr>]
   \<and> snd (deleteDoc (recording answer) doctype JUndefined []) =
     [\<lparr>verb = DELETE, url = ''/api/resource/'' @ doctype @ ''/undefined'', params = None,
       body = None\<rparr>]
   \<and> snd (getDoc (recording answer) doctype JUndefined []) =
     [\<lparr>verb = GET, url = ''/api/resource/'' @ doctype @ ''/'', params = None,
       body = None\<rparr>]"
  by (simp add: updateDoc_def deleteDoc_def getDoc_def recording_def)

section \<open>The parameters of getCount\<close>

text \<open>
  C4. Without filters \<^verbatim>\<open>getCount\<close> binds \<^verbatim>\<open>filters\<close> to the empty array in the parameter
  object that it hands to the transport, and the object has no \<^verbatim>\<open>cache\<close> and no
  \<^verbatim>\<open>debug\<close> key when the flags are false or omitted. With both flags true the object has
  \<^verbatim>\<open>cache: true\<close> and \<^verbatim>\<open>debug: true\<close>. Filters that are given are bound as their JSON
  text. The one request is a GET of \<^verbatim>\<open>/api/method/frappe.client.get_count\<close> with that
  object, and a fulfilled call resolves to the \<^verbatim>\<open>message\<close> field of the response body.
\<close>

theorem count_params_shape:
  "count_params doctype JUndefined JUndefined JUndefined =
     JObj [(''doctype'', JStr doctype), (''filters'', JArr [])]
   \<and> count_params doctype JUndefined (JBool False) (JBool False) =
     JObj [(''doctype'', JStr doctype), (''filters'', JArr [])]
   \<and> count_params doctype (JArr fl) (JBool False) (JBool False) =
     JObj [(''doctype'', JStr doctype), (''filters'', JSON_stringify (JArr fl))]
   \<and> count_params doctype (JArr fl) (JBool True) (JBool True) =
     JObj [(''doctype'', JStr doctype), (''filters'', JSON_stringify (JArr fl)),
           (''cache'', JBool True), (''debug'', JBool True)]
   \<and> count_params doctype JUndefined (JBool True) (JBool True) =
     JObj [(''doctype'', JStr doctype), (''filters'', JArr []),
           (''cache'', JBool True), (''debug'', JBool True)]
   \<and> snd (getCount ax doctype filters cache debug s) =
       snd (ax \<lparr>verb = GET, url = ''/api/method/frappe.client.get_count'',
                params = Some (count_params doctype filters cache debug), body = None\<rparr> s)
   \<and> (\<forall>res. fst (ax \<lparr>verb = GET, url = ''/api/method/frappe.client.get_count'',
                params = Some (count_params doctype filters cache debug), body = None\<rparr> s)
            = Fulfilled res
          \<longrightarrow> fst (getCount ax doctype filters cache debug s) = get_prop (data res) ''message'')"
  by (simp add: count_params_def getCount_request Let_def then_catch_get_prop is_digit_def)

theorem count_params_shape_witness:
  "count_params ''Task'' JUndefined JUndefined JUndefined =
     JObj [(''doctype'', JStr ''Task''), (''filters'', JArr [])]
   \<and> getCount (recording (\<lambda>req. Fulfilled counted)) ''Task''
        (JArr [JArr [JStr ''status'', JStr ''='', JStr ''Open'']]) (JBool True) (JBool True) [] =
       (Inr (JNum 42),
        [\<lparr>verb = GET, url = ''/api/method/frappe.client.get_count'',
           params = Some (JObj [(''doctype'', JStr ''Task''),
                                (''filters'', JStr ''[[\"status\",\"=\",\"Open\"]]''),
                                (''cache'', JBool True), (''debug'', JBool True)]),
           body = None\<rparr>])"
proof -
  note shape = count_params_shape [where ax = "recording (\<lambda>req. Fulfilled counted)"
      and doctype = "''Task''" and s = "[]" and cache = "JBool True" and debug = "JBool True"
      and filters = "JArr [JArr [JStr ''status'', JStr ''='', JStr ''Open'']]"
      and fl = "[JArr [JStr ''status'', JStr ''='', JStr ''Open'']]"]
  have answer: "fst (recording (\<lambda>req. Fulfilled counted) req []) = Fulfilled counted" for req
    by (simp add: recording_def)
  from shape have "fst (getCount (recording (\<lambda>req. Fulfilled counted)) ''Task''
        (JArr [JArr [JStr ''status'', JStr ''='', JStr ''Open'']]) (JBool True) (JBool True) [])
      = get_prop (data counted) ''message''"
    using answer by blast
  moreover from shape have "snd (getCount (recording (\<lambda>req. Fulfilled counted)) ''Task''
        (JArr [JArr [JStr ''status'', JStr ''='', JStr ''Open'']]) (JBool True) (JBool True) [])
      = [\<lparr>verb = GET, url = ''/api/method/frappe.client.get_count'',
           params = Some (JObj [(''doctype'', JStr ''Task''),
                                (''filters'', JStr ''[[\"status\",\"=\",\"Open\"]]''),
                                (''cache'', JBool True), (''debug'', JBool True)]),
           body = None\<rparr>]"
    by (simp add: recording_def stringify_status_filter)
  moreover from shape have "count_params ''Task'' JUndefined JUndefined JUndefined =
     JObj [(''doctype'', JStr ''Task''), (''filters'', JArr [])]"
    by blast
  ultimately show ?thesis
    by (simp add: prod_eq_iff counted_def get_prop_def read_prop_def)
qed

section \<open>The parameters of getDocList\<close>

text \<open>
  C5. When the arguments of \<^verbatim>\<open>getDocList\<close> have an \<^verbatim>\<open>orderBy\<close> with the field \<open>f\<close>, the
  parameter \<^verbatim>\<open>order_by\<close> is the one string made of \<open>f\<close>, a space and the direction; the
  direction is \<^verbatim>\<open>asc\<close> when \<^verbatim>\<open>order\<close> is left out. \<^verbatim>\<open>fields\<close>, \<^verbatim>\<open>filters\<close> and \<^verbatim>\<open>orFilters\<close>
  (sent as \<^verbatim>\<open>or_filters\<close>), when the arguments have them, are bound as their JSON text.
  The parameter object is the one of the GET request to \<^verbatim>\<open>/api/resource/{doctype}\<close>.
\<close>

theorem list_params_order_by:
  "(map_of fs ''orderBy'' = Some (JObj ob) \<and> map_of ob ''field'' = Some (JStr f)
      \<and> map_of ob ''order'' = Some (JStr dir)
      \<longrightarrow> param (list_params (JObj fs)) ''order_by'' = Some (JStr (f @ '' '' @ dir)))
   \<and> (map_of fs ''orderBy'' = Some (JObj ob) \<and> map_of ob ''field'' = Some (JStr f)
      \<and> map_of ob ''order'' = None
      \<longrightarrow> param (list_params (JObj fs)) ''order_by'' = Some (JStr (f @ '' asc'')))
   \<and> (list_params (JObj fs) = Inr p \<and> map_of fs ''fields'' = Some (JArr xs)
      \<longrightarrow> param (Inr p) ''fields'' = Some (JSON_stringify (JArr xs)))
   \<and> (list_params (JObj fs) = Inr p \<and> map_of fs ''filters'' = Some (JArr ys)
      \<longrightarrow> param (Inr p) ''filters'' = Some (JSON_stringify (JArr ys)))
   \<and> (list_params (JObj fs) = Inr p \<and> map_of fs ''orFilters'' = Some (JArr zs)
      \<longrightarrow> param (Inr p) ''or_filters'' = Some (JSON_stringify (JArr zs)))
   \<and> (list_params (JObj fs) = Inr p
      \<longrightarrow> snd (getDocList ax doctype (JObj fs) s) =
            snd (ax \<lparr>verb = GET, url = ''/api/resource/'' @ doctype, params = Some p,
                     body = None\<rparr> s))"
proof (intro conjI impI)
  assume "map_of fs ''orderBy'' = Some (JObj ob) \<and> map_of ob ''field'' = Some (JStr f)
      \<and> map_of ob ''order'' = Some (JStr dir)"
  then show "param (list_params (JObj fs)) ''order_by'' = Some (JStr (f @ '' '' @ dir))"
    by (simp add: list_params_object order_by_string_def read_prop_def coalesce_def param_def)
next
  assume "map_of fs ''orderBy'' = Some (JObj ob) \<and> map_of ob ''field'' = Some (JStr f)
      \<and> map_of ob ''order'' = None"
  then show "param (list_params (JObj fs)) ''order_by'' = Some (JStr (f @ '' asc''))"
    by (simp add: list_params_object order_by_string_def read_prop_def coalesce_def param_def)
next
  assume "list_params (JObj fs) = Inr p \<and> map_of fs ''fields'' = Some (JArr xs)"
  then show "param (Inr p) ''fields'' = Some (JSON_stringify (JArr xs))"
    by (auto simp: list_params_object read_prop_def param_def split: sum.splits)
next
  assume "list_params (JObj fs) = Inr p \<and> map_of fs ''filters'' = Some (JArr ys)"
  then show "param (Inr p) ''filters'' = Some (JSON_stringify (JArr ys))"
    by (auto simp: list_params_object read_prop_def param_def split: sum.splits)
next
  assume "list_params (JObj fs) = Inr p \<and> map_of fs ''orFilters'' = Some (JArr zs)"
  then show "param (Inr p) ''or_filters'' = Some (JSON_stringify (JArr zs))"
    by (auto simp: list_params_object read_prop_def param_def split: sum.splits)
next
  assume "list_params (JObj fs) = Inr p"
  then show "snd (getDocList ax doctype (JObj fs) s) =
            snd (ax \<lparr>verb = GET, url = ''/api/resource/'' @ doctype, params = Some p,
                     body = None\<rparr> s)"
    by (simp add: getDocList_request Let_def)
qed

text \<open>The arguments \<^verbatim>\<open>{orderBy: {field: "age"}, fields: ["name","age"], filters:
  [["age",">",18]], orFilters: [["status","=","Open"]]}\<close>, and an \<^verbatim>\<open>orderBy\<close> with its
  direction.\<close>

theorem list_params_order_by_witness:
  "param (list_params (JObj
      [(''orderBy'', JObj [(''field'', JStr ''age'')]),
       (''fields'', JArr [JStr ''name'', JStr ''age'']),
       (''filters'', JArr [JArr [JStr ''age'', JStr ''>'', JNum 18]]),
       (''orFilters'', JArr [JArr [JStr ''status'', JStr ''='', JStr ''Open'']])])) ''order_by''
     = Some (JStr ''age asc'')
   \<and> param (list_params (JObj
      [(''orderBy'', JObj [(''field'', JStr ''age'')]),
       (''fields'', JArr [JStr ''name'', JStr ''age'']),
       (''filters'', JArr [JArr [JStr ''age'', JStr ''>'', JNum 18]]),
       (''orFilters'', JArr [JArr [JStr ''status'', JStr ''='', JStr ''Open'']])])) ''fields''
     = Some (JStr ''[\"name\",\"age\"]'')
   \<and> param (list_params (JObj
      [(''orderBy'', JObj [(''field'', JStr ''age'')]),
       (''fields'', JArr [JStr ''name'', JStr ''age'']),
       (''filters'', JArr [JArr [JStr ''age'', JStr ''>'', JNum 18]]),
       (''orFilters'', JArr [JArr [JStr ''status'', JStr ''='', JStr ''Open'']])])) ''filters''
     = Some (JStr ''[[\"age\",\">\",18]]'')
   \<and> param (list_params (JObj
      [(''orderBy'', JObj [(''field'', JStr ''age'')]),
       (''fields'', JArr [JStr ''name'', JStr ''age'']),
       (''filters'', JArr [JArr [JStr ''age'', JStr ''>'', JNum 18]]),
       (''orFilters'', JArr [JArr [JStr ''status'', JStr ''='', JStr ''Open'']])])) ''or_filters''
     = Some (JStr ''[[\"status\",\"=\",\"Open\"]]'')
   \<and> param (list_params (JObj
      [(''orderBy'', JObj [(''field'', JStr ''creation''), (''order'', JStr ''desc'')])]))
      ''order_by'' = Some (JStr ''creation desc'')"
proof -
  let ?fs = "[(''orderBy'', JObj [(''field'', JStr ''age'')]),
       (''fields'', JArr [JStr ''name'', JStr ''age'']),
       (''filters'', JArr [JArr [JStr ''age'', JStr ''>'', JNum 18]]),
       (''orFilters'', JArr [JArr [JStr ''status'', JStr ''='', JStr ''Open'']])]"
  have params: "list_params (JObj ?fs) = Inr (JObj
      [(''fields'', JStr ''[\"name\",\"age\"]''),
       (''filters'', JStr ''[[\"age\",\">\",18]]''),
       (''or_filters'', JStr ''[[\"status\",\"=\",\"Open\"]]''),
       (''order_by'', JStr ''age asc''), (''group_by'', JUndefined), (''limit'', JUndefined),
       (''limit_start'', JUndefined), (''as_dict'', JBool True)])"
    by (simp add: list_params_object order_by_string_def read_prop_def coalesce_def
        stringify_name_age stringify_age_filter stringify_status_filter)
  let ?p = "JObj
      [(''fields'', JStr ''[\"name\",\"age\"]''),
       (''filters'', JStr ''[[\"age\",\">\",18]]''),
       (''or_filters'', JStr ''[[\"status\",\"=\",\"Open\"]]''),
       (''order_by'', JStr ''age asc''), (''group_by'', JUndefined), (''limit'', JUndefined),
       (''limit_start'', JUndefined), (''as_dict'', JBool True)]"
  note first = list_params_order_by [where fs = ?fs and ob = "[(''field'', JStr ''age'')]"
      and f = "''age''" and xs = "[JStr ''name'', JStr ''age'']"
      and ys = "[JArr [JStr ''age'', JStr ''>'', JNum 18]]"
      and zs = "[JArr [JStr ''status'', JStr ''='', JStr ''Open'']]" and p = ?p]
  have order: "map_of ?fs ''orderBy'' = Some (JObj [(''field'', JStr ''age'')])
      \<and> map_of [(''field'', JStr ''age'')] ''field'' = Some (JStr ''age'')
      \<and> map_of [(''field'', JStr ''age'')] ''order'' = None"
    by simp
  have fields: "list_params (JObj ?fs) = Inr ?p
      \<and> map_of ?fs ''fields'' = Some (JArr [JStr ''name'', JStr ''age''])"
    using params by simp
  have filters: "list_params (JObj ?fs) = Inr ?p
      \<and> map_of ?fs ''filters'' = Some (JArr [JArr [JStr ''age'', JStr ''>'', JNum 18]])"
    using params by simp
  have orFilters: "list_params (JObj ?fs) = Inr ?p
      \<and> map_of ?fs ''orFilters'' = Some (JArr [JArr [JStr ''status'', JStr ''='', JStr ''Open'']])"
    using params by simp
  have "param (list_params (JObj ?fs)) ''order_by'' = Some (JStr ''age asc'')"
    using first [THEN conjunct2, THEN conjunct1, rule_format, OF order] by simp
  moreover have "param (list_params (JObj ?fs)) ''fields'' = Some (JStr ''[\"name\",\"age\"]'')"
    using first [THEN conjunct2, THEN conjunct2, THEN conjunct1, rule_format, OF fields]
    by (simp only: params stringify_name_age)
  moreover have "param (list_params (JObj ?fs)) ''filters'' = Some (JStr ''[[\"age\",\">\",18]]'')"
    using first [THEN conjunct2, THEN conjunct2, THEN conjunct2, THEN conjunct1, rule_format,
        OF filters]
    by (simp only: params stringify_age_filter)
  moreover have "param (list_params (JObj ?fs)) ''or_filters''
      = Some (JStr ''[[\"status\",\"=\",\"Open\"]]'')"
    using first [THEN conjunct2, THEN conjunct2, THEN conjunct2, THEN conjunct2, THEN conjunct1,
        rule_format, OF orFilters]
    by (simp only: params stringify_status_filter)
  moreover have "param (list_params (JObj
      [(''orderBy'', JObj [(''field'', JStr ''creation''), (''order'', JStr ''desc'')])]))
      ''order_by'' = Some (JStr ''creation desc'')"
    using list_params_order_by [where
      fs = "[(''orderBy'', JObj [(''field'', JStr ''creation''), (''order'', JStr ''desc'')])]"
      and ob = "[(''field'', JStr ''creation''), (''order'', JStr ''desc'')]"
      and f = "''creation''" and dir = "''desc''", THEN conjunct1]
    by simp
  ultimately show ?thesis
    by blast
qed

text \<open>
  C9. When \<^verbatim>\<open>getDocList\<close> gets arguments without \<^verbatim>\<open>orderBy\<close>, the parameter object still
  has the key \<^verbatim>\<open>order_by\<close>, bound to the empty string; the keys \<^verbatim>\<open>fields\<close>, \<^verbatim>\<open>filters\<close> and
  \<^verbatim>\<open>or_filters\<close> of arguments left out are bound to \<^verbatim>\<open>undefined\<close>.
\<close>

theorem list_params_without_order_by:
  assumes "map_of fs ''orderBy'' = None"
  shows "param (list_params (JObj fs)) ''order_by'' = Some (JStr '''')
   \<and> (map_of fs ''fields'' = None \<longrightarrow> param (list_params (JObj fs)) ''fields'' = Some JUndefined)
   \<and> (map_of fs ''filters'' = None \<longrightarrow> param (list_params (JObj fs)) ''filters'' = Some JUndefined)
   \<and> (map_of fs ''orFilters'' = None
        \<longrightarrow> param (list_params (JObj fs)) ''or_filters'' = Some JUndefined)"
  using assms
  by (simp add: list_params_object order_by_string_def read_prop_def param_def)

theorem list_params_without_order_by_witness:
  "map_of [(''limit'', JNum 10)] ''orderBy'' = None
   \<and> map_of [(''limit'', JNum 10)] ''fields'' = None
   \<and> map_of [(''limit'', JNum 10)] ''filters'' = None
   \<and> map_of [(''limit'', JNum 10)] ''orFilters'' = None
   \<and> param (list_params (JObj [(''limit'', JNum 10)])) ''order_by'' = Some (JStr '''')
   \<and> param (list_params (JObj [(''limit'', JNum 10)])) ''fields'' = Some JUndefined
   \<and> param (list_params (JObj [(''limit'', JNum 10)])) ''filters'' = Some JUndefined
   \<and> param (list_params (JObj [(''limit'', JNum 10)])) ''or_filters'' = Some JUndefined
   \<and> list_params (JObj [(''limit'', JNum 10)]) = Inr (JObj
        [(''fields'', JUndefined), (''filters'', JUndefined), (''or_filters'', JUndefined),
         (''order_by'', JStr ''''), (''group_by'', JUndefined), (''limit'', JNum 10),
         (''limit_start'', JUndefined), (''as_dict'', JBool True)])"
proof -
  have absent: "map_of [(''limit'', JNum 10)] ''orderBy'' = None"
    by simp
  have "list_params (JObj [(''limit'', JNum 10)]) = Inr (JObj
        [(''fields'', JUndefined), (''filters'', JUndefined), (''or_filters'', JUndefined),
         (''order_by'', JStr ''''), (''group_by'', JUndefined), (''limit'', JNum 10),
         (''limit_start'', JUndefined), (''as_dict'', JBool True)])"
    by (simp add: list_params_object order_by_string_def read_prop_def)
  with list_params_without_order_by [OF absent] show ?thesis
    by simp
qed

section \<open>What a fulfilled call resolves to\<close>

text \<open>
  C6. When the server fulfils the request, \<^verbatim>\<open>deleteDoc\<close> resolves to the body of the
  response as it is. The other five operations resolve to a field read from the body:
  \<^verbatim>\<open>data\<close> for \<^verbatim>\<open>getDoc\<close>, \<^verbatim>\<open>getDocList\<close>, \<^verbatim>\<open>createDoc\<close> and \<^verbatim>\<open>updateDoc\<close>, and
  \<^verbatim>\<open>message\<close> for \<^verbatim>\<open>getCount\<close>.
\<close>

theorem delete_returns_body:
  assumes srv: "\<And>req. fst (ax req s) = Fulfilled res"
    and name: "to_string docname = Inr n"
    and args: "list_params args = Inr p"
  shows
    "fst (deleteDoc ax doctype docname s) = Inr (data res)
   \<and> fst (getDoc ax doctype docname s) = get_prop (data res) ''data''
   \<and> fst (getDocList ax doctype args s) = get_prop (data res) ''data''
   \<and> fst (createDoc ax doctype v s) = get_prop (data res) ''data''
   \<and> fst (updateDoc ax doctype docname v s) = get_prop (data res) ''data''
   \<and> fst (getCount ax doctype filters cache debug s) = get_prop (data res) ''message''"
proof -
  have unwrap: "then_catch unwrap_data on_err (Fulfilled res) = get_prop (data res) ''data''"
    for on_err
    by (simp add: then_catch_def unwrap_data_def get_prop_def)
  have "fst (deleteDoc ax doctype docname s) = Inr (data res)"
    by (simp add: deleteDoc_request [OF name] Let_def srv then_catch_def)
  moreover have "fst (getDoc ax doctype docname s) = get_prop (data res) ''data''"
    by (simp add: getDoc_request [OF name] Let_def srv unwrap)
  moreover have "fst (getDocList ax doctype args s) = get_prop (data res) ''data''"
    by (simp add: getDocList_request [OF args] Let_def srv unwrap)
  moreover have "fst (createDoc ax doctype v s) = get_prop (data res) ''data''"
    by (simp add: createDoc_request Let_def srv unwrap)
  moreover have "fst (updateDoc ax doctype docname v s) = get_prop (data res) ''data''"
    by (simp add: updateDoc_request [OF name] Let_def srv unwrap)
  moreover have "fst (getCount ax doctype filters cache debug s) = get_prop (data res) ''message''"
    by (simp add: getCount_request Let_def srv then_catch_get_prop)
  ultimately show ?thesis by blast
qed

text \<open>The body \<^verbatim>\<open>{"message":"ok"}\<close>: the deletion resolves to it, the count to its
  \<^verbatim>\<open>message\<close>, and \<^verbatim>\<open>getDoc\<close> to its missing \<^verbatim>\<open>data\<close>.\<close>

theorem delete_returns_body_witness:
  "(\<forall>req. fst (server_ok req ()) = Fulfilled ok_body)
   \<and> to_string (JStr ''TASK-1'') = Inr ''TASK-1''
   \<and> list_params JUndefined = Inr (JObj [])
   \<and> fst (deleteDoc server_ok ''Task'' (JStr ''TASK-1'') ()) = Inr (JObj [(''message'', JStr ''ok'')])
   \<and> fst (getDoc server_ok ''Task'' (JStr ''TASK-1'') ()) = Inr JUndefined
   \<and> fst (getCount server_ok ''Task'' JUndefined JUndefined JUndefined ()) = Inr (JStr ''ok'')"
proof -
  have srv: "\<And>req. fst (server_ok req ()) = Fulfilled ok_body"
    by (simp add: server_ok_def)
  have name: "to_string (JStr ''TASK-1'') = Inr ''TASK-1''"
    by simp
  have args: "list_params JUndefined = Inr (JObj [])"
    by (simp add: list_params_def)
  show ?thesis
    using delete_returns_body [where ax = server_ok and s = "()" and doctype = "''Task''"
        and filters = JUndefined and cache = JUndefined and debug = JUndefined,
        OF srv name args]
    by (simp add: srv args ok_body_def get_prop_def read_prop_def)
qed

text \<open>
  C7. When the list call of \<^verbatim>\<open>getLastDoc\<close> resolves to the empty list, \<^verbatim>\<open>getLastDoc\<close>
  resolves to the empty object, and no further request is issued.
\<close>

theorem last_doc_empty:
  assumes "fst (getDocList ax doctype (last_doc_args args) s) = Inr (JArr [])"
  shows "getLastDoc ax doctype args s =
     Some (Inr (JObj []), snd (getDocList ax doctype (last_doc_args args) s))"
  using assms
  by (cases "getDocList ax doctype (last_doc_args args) s")
     (simp add: getLastDoc_def get_prop_length)

theorem last_doc_empty_witness:
  "fst (getDocList (recording (\<lambda>req. Fulfilled empty_list)) ''Task''
          (last_doc_args JUndefined) []) = Inr (JArr [])
   \<and> getLastDoc (recording (\<lambda>req. Fulfilled empty_list)) ''Task'' JUndefined [] =
       Some (Inr (JObj []),
         [\<lparr>verb = GET, url = ''/api/resource/Task'',
            params = Some (JObj
              [(''fields'', JStr ''[\"name\"]''), (''filters'', JUndefined),
               (''or_filters'', JUndefined), (''order_by'', JStr ''creation desc''),
               (''group_by'', JUndefined), (''limit'', JNum 1),
               (''limit_start'', JUndefined), (''as_dict'', JBool True)]),
            body = None\<rparr>])"
proof -
  have list: "getDocList (recording (\<lambda>req. Fulfilled empty_list)) ''Task''
          (last_doc_args JUndefined) [] =
      (Inr (JArr []),
         [\<lparr>verb = GET, url = ''/api/resource/Task'',
            params = Some (JObj
              [(''fields'', JStr ''[\"name\"]''), (''filters'', JUndefined),
               (''or_filters'', JUndefined), (''order_by'', JStr ''creation desc''),
               (''group_by'', JUndefined), (''limit'', JNum 1),
               (''limit_start'', JUndefined), (''as_dict'', JBool True)]),
            body = None\<rparr>])"
    by (simp add: getDocList_def list_params_last_doc recording_def empty_list_def
        then_catch_def unwrap_data_def get_prop_def read_prop_def)
  then have empty: "fst (getDocList (recording (\<lambda>req. Fulfilled empty_list)) ''Task''
          (last_doc_args JUndefined) []) = Inr (JArr [])"
    by simp
  from last_doc_empty [OF empty] list show ?thesis
    by simp
qed

section \<open>The body of createDoc\<close>

text \<open>
  C8. For a document that is an object, \<^verbatim>\<open>createDoc\<close> issues one request: a POST to
  \<^verbatim>\<open>/api/resource/{doctype}\<close> whose body is the object of the fields of the document
  themselves, with nothing around them. When the request is fulfilled the call resolves to
  the \<^verbatim>\<open>data\<close> field of the response body.
\<close>

theorem create_posts_fields:
  assumes "wf_obj fs"
  shows
    "snd (createDoc ax doctype (JObj fs) s) =
       snd (ax \<lparr>verb = POST, url = ''/api/resource/'' @ doctype, params = None,
                body = Some (JObj fs)\<rparr> s)
   \<and> (\<forall>res. fst (ax \<lparr>verb = POST, url = ''/api/resource/'' @ doctype, params = None,
                      body = Some (JObj fs)\<rparr> s) = Fulfilled res
          \<longrightarrow> fst (createDoc ax doctype (JObj fs) s) = get_prop (data res) ''data'')"
  by (simp add: createDoc_request Let_def spread_object [OF assms] then_catch_def
      unwrap_data_def get_prop_def)

text \<open>\<^verbatim>\<open>createDoc("Task", {subject: "X"})\<close>\<close>

theorem create_posts_fields_witness:
  "wf_obj [(''subject'', JStr ''X'')]
   \<and> snd (createDoc (recording (\<lambda>req. Fulfilled created)) ''Task''
            (JObj [(''subject'', JStr ''X'')]) []) =
       [\<lparr>verb = POST, url = ''/api/resource/Task'', params = None,
         body = Some (JObj [(''subject'', JStr ''X'')])\<rparr>]
   \<and> fst (createDoc (recording (\<lambda>req. Fulfilled created)) ''Task''
            (JObj [(''subject'', JStr ''X'')]) []) =
       Inr (JObj [(''name'', JStr ''TASK-1''), (''subject'', JStr ''X'')])"
proof -
  have wf: "wf_obj [(''subject'', JStr ''X'')]"
    by (simp add: wf_obj_def)
  show ?thesis
    using create_posts_fields [OF wf, where ax = "recording (\<lambda>req. Fulfilled created)"
        and doctype = "''Task''" and s = "[]"]
    by (simp add: wf recording_def created_def get_prop_def read_prop_def)
qed

section \<open>The fields written after the spread\<close>

text \<open>
  C10. In the error path of each of the six operations the body of the response is spread
  first and the fields \<^verbatim>\<open>httpStatus\<close>, \<^verbatim>\<open>httpStatusText\<close>, \<^verbatim>\<open>message\<close> and \<^verbatim>\<open>exception\<close>
  are written after it. The thrown object is the body with these four fields written over
  it: it keeps every field that the body has under another name, and whatever the body
  holds under the four names, the thrown object has there the status code, the status
  text, the message and the exception that the handler computes.
\<close>

theorem client_fields_override:
  assumes srv: "\<And>req. fst (ax req s) = Failed (Some res)"
    and body: "\<not> nullish (data res)"
    and name: "to_string docname = Inr n"
    and args: "list_params args = Inr p"
  shows
    "written_after_spread (fst (getDoc ax doctype docname s)) res
       (JStr ''There was an error while fetching the document.'')
   \<and> written_after_spread (fst (getDocList ax doctype args s)) res
       (JStr ''There was an error while fetching the documents.'')
   \<and> written_after_spread (fst (createDoc ax doctype v s)) res
       (coalesce (read_prop (data res) ''message'')
          (JStr ''There was an error while creating the document.''))
   \<and> written_after_spread (fst (updateDoc ax doctype docname v s)) res
       (coalesce (read_prop (data res) ''message'')
          (JStr ''There was an error while updating the document.''))
   \<and> written_after_spread (fst (deleteDoc ax doctype docname s)) res
       (JStr ''There was an error while deleting the document.'')
   \<and> written_after_spread (fst (getCount ax doctype filters cache debug s)) res
       (JStr ''There was an error while getting the count.'')"
proof -
  have plain: "written_after_spread (throw_error msg res) res (JStr msg)" for msg
    by (simp add: throw_error_value [OF body] written_after_spread_error_object)
  have server: "written_after_spread (throw_error_server_message msg res) res
      (coalesce (read_prop (data res) ''message'') (JStr msg))" for msg
    by (simp add: throw_error_server_message_value [OF body] written_after_spread_error_object)
  have "written_after_spread (fst (getDoc ax doctype docname s)) res
       (JStr ''There was an error while fetching the document.'')"
    by (simp add: getDoc_request [OF name] Let_def srv then_catch_Failed plain)
  moreover have "written_after_spread (fst (getDocList ax doctype args s)) res
       (JStr ''There was an error while fetching the documents.'')"
    by (simp add: getDocList_request [OF args] Let_def srv then_catch_Failed plain)
  moreover have "written_after_spread (fst (createDoc ax doctype v s)) res
       (coalesce (read_prop (data res) ''message'')
          (JStr ''There was an error while creating the document.''))"
    by (simp add: createDoc_request Let_def srv then_catch_Failed server)
  moreover have "written_after_spread (fst (updateDoc ax doctype docname v s)) res
       (coalesce (read_prop (data res) ''message'')
          (JStr ''There was an error while updating the document.''))"
    by (simp add: updateDoc_request [OF name] Let_def srv then_catch_Failed server)
  moreover have "written_after_spread (fst (deleteDoc ax doctype docname s)) res
       (JStr ''There was an error while deleting the document.'')"
    by (simp add: deleteDoc_request [OF name] Let_def srv then_catch_Failed plain)
  moreover have "written_after_spread (fst (getCount ax doctype filters cache debug s)) res
       (JStr ''There was an error while getting the count.'')"
    by (simp add: getCount_request Let_def srv then_catch_Failed plain)
  ultimately show ?thesis by blast
qed

text \<open>A response 417 whose body has \<^verbatim>\<open>httpStatus: 200\<close>, \<^verbatim>\<open>httpStatusText: "fine"\<close>, a
  message and a \<^verbatim>\<open>null\<close> exception.\<close>

theorem client_fields_override_witness:
  "(\<forall>req. fst (server_417 req ()) = Failed (Some conflicting))
   \<and> \<not> nullish (data conflicting)
   \<and> to_string (JStr ''TASK-1'') = Inr ''TASK-1''
   \<and> list_params (JObj []) \<noteq> Inl TypeError
   \<and> map_of (own_props (data conflicting)) ''httpStatus'' = Some (JNum 200)
   \<and> map_of (own_props (data conflicting)) ''httpStatusText'' = Some (JStr ''fine'')
   \<and> rejects_with (fst (deleteDoc server_417 ''Task'' (JStr ''TASK-1'') ()))
        [''exc_type'' \<mapsto> JStr ''ValidationError'', ''httpStatus'' \<mapsto> JNum 417,
         ''httpStatusText'' \<mapsto> JStr ''EXPECTATION FAILED'',
         ''message'' \<mapsto> JStr ''There was an error while deleting the document.'',
         ''exception'' \<mapsto> JStr ''ValidationError'']
   \<and> rejects_with (fst (createDoc server_417 ''Task'' (JObj []) ()))
        [''exc_type'' \<mapsto> JStr ''ValidationError'', ''httpStatus'' \<mapsto> JNum 417,
         ''httpStatusText'' \<mapsto> JStr ''EXPECTATION FAILED'',
         ''message'' \<mapsto> JStr ''Server says no'',
         ''exception'' \<mapsto> JStr ''ValidationError'']
   \<and> thrown_field (fst (deleteDoc server_417 ''Task'' (JStr ''TASK-1'') ())) ''exc_type''
        = Some (JStr ''ValidationError'')
   \<and> thrown_field (fst (deleteDoc server_417 ''Task'' (JStr ''TASK-1'') ())) ''httpStatus''
        = Some (JNum 417)
   \<and> thrown_field (fst (deleteDoc server_417 ''Task'' (JStr ''TASK-1'') ())) ''httpStatusText''
        = Some (JStr ''EXPECTATION FAILED'')
   \<and> thrown_field (fst (deleteDoc server_417 ''Task'' (JStr ''TASK-1'') ())) ''message''
        = Some (JStr ''There was an error while deleting the document.'')
   \<and> thrown_field (fst (deleteDoc server_417 ''Task'' (JStr ''TASK-1'') ())) ''exception''
        = Some (JStr ''ValidationError'')
   \<and> thrown_field (fst (createDoc server_417 ''Task'' (JObj []) ())) ''message''
        = Some (JStr ''Server says no'')
   \<and> thrown_field (fst (getDocList server_417 ''Task'' (JObj []) ())) ''httpStatus''
        = Some (JNum 417)"
proof -
  have srv: "\<And>req. fst (server_417 req ()) = Failed (Some conflicting)"
    by (simp add: server_417_def)
  have body: "\<not> nullish (data conflicting)"
    by (simp add: conflicting_def)
  have name: "to_string (JStr ''TASK-1'') = Inr ''TASK-1''"
    by simp
  have args: "list_params (JObj []) = Inr (JObj
     [(''fields'', JUndefined), (''filters'', JUndefined), (''or_filters'', JUndefined),
      (''order_by'', JStr ''''), (''group_by'', JUndefined), (''limit'', JUndefined),
      (''limit_start'', JUndefined), (''as_dict'', JBool True)])"
    by (simp add: list_params_def order_by_string_def read_prop_def)
  note all = client_fields_override [where ax = server_417 and s = "()"
      and doctype = "''Task''" and v = "JObj []" and filters = JUndefined
      and cache = JUndefined and debug = JUndefined, OF srv body name args]
  have whole_delete: "rejects_with (fst (deleteDoc server_417 ''Task'' (JStr ''TASK-1'') ()))
        [''exc_type'' \<mapsto> JStr ''ValidationError'', ''httpStatus'' \<mapsto> JNum 417,
         ''httpStatusText'' \<mapsto> JStr ''EXPECTATION FAILED'',
         ''message'' \<mapsto> JStr ''There was an error while deleting the document.'',
         ''exception'' \<mapsto> JStr ''ValidationError'']"
  proof -
    have "[''exc_type'' \<mapsto> JStr ''ValidationError'', ''httpStatus'' \<mapsto> JNum 417,
         ''httpStatusText'' \<mapsto> JStr ''EXPECTATION FAILED'',
         ''message'' \<mapsto> JStr ''There was an error while deleting the document.'',
         ''exception'' \<mapsto> JStr ''ValidationError''] =
       (body_fields (data conflicting))
         (''httpStatus'' \<mapsto> JNum (status conflicting),
          ''httpStatusText'' \<mapsto> JStr (statusText conflicting),
          ''message'' \<mapsto> JStr ''There was an error while deleting the document.'',
          ''exception'' \<mapsto>
            coalesce (read_prop (data conflicting) ''exception'')
              (coalesce (read_prop (data conflicting) ''exc_type'') (JStr '''')))"
      by (auto simp: body_fields_def conflicting_def read_prop_def coalesce_def fun_eq_iff)
    with all show ?thesis
      by (simp add: written_after_spread_def)
  qed
  have whole_create: "rejects_with (fst (createDoc server_417 ''Task'' (JObj []) ()))
        [''exc_type'' \<mapsto> JStr ''ValidationError'', ''httpStatus'' \<mapsto> JNum 417,
         ''httpStatusText'' \<mapsto> JStr ''EXPECTATION FAILED'',
         ''message'' \<mapsto> JStr ''Server says no'',
         ''exception'' \<mapsto> JStr ''ValidationError'']"
  proof -
    have "[''exc_type'' \<mapsto> JStr ''ValidationError'', ''httpStatus'' \<mapsto> JNum 417,
         ''httpStatusText'' \<mapsto> JStr ''EXPECTATION FAILED'',
         ''message'' \<mapsto> JStr ''Server says no'',
         ''exception'' \<mapsto> JStr ''ValidationError''] =
       (body_fields (data conflicting))
         (''httpStatus'' \<mapsto> JNum (status conflicting),
          ''httpStatusText'' \<mapsto> JStr (statusText conflicting),
          ''message'' \<mapsto> coalesce (read_prop (data conflicting) ''message'')
             (JStr ''There was an error while creating the document.''),
          ''exception'' \<mapsto>
            coalesce (read_prop (data conflicting) ''exception'')
              (coalesce (read_prop (data conflicting) ''exc_type'') (JStr '''')))"
      by (auto simp: body_fields_def conflicting_def read_prop_def coalesce_def fun_eq_iff)
    with all show ?thesis
      by (simp add: written_after_spread_def)
  qed
  from whole_delete
  have kept: "thrown_field (fst (deleteDoc server_417 ''Task'' (JStr ''TASK-1'') ())) ''exc_type''
        = Some (JStr ''ValidationError'')"
    by (auto simp: rejects_with_def thrown_field_def
        split: sum.splits rejection.splits json.splits)
  from all have four:
    "thrown_field (fst (deleteDoc server_417 ''Task'' (JStr ''TASK-1'') ())) ''httpStatus''
        = Some (JNum 417)
     \<and> thrown_field (fst (deleteDoc server_417 ''Task'' (JStr ''TASK-1'') ())) ''httpStatusText''
        = Some (JStr ''EXPECTATION FAILED'')
     \<and> thrown_field (fst (deleteDoc server_417 ''Task'' (JStr ''TASK-1'') ())) ''message''
        = Some (JStr ''There was an error while deleting the document.'')
     \<and> thrown_field (fst (deleteDoc server_417 ''Task'' (JStr ''TASK-1'') ())) ''exception''
        = Some (JStr ''ValidationError'')
     \<and> thrown_field (fst (createDoc server_417 ''Task'' (JObj []) ())) ''message''
        = Some (JStr ''Server says no'')
     \<and> thrown_field (fst (getDocList server_417 ''Task'' (JObj []) ())) ''httpStatus''
        = Some (JNum 417)"
    by (simp add: written_after_spread_def client_fields_def conflicting_def read_prop_def
        coalesce_def)
  have own: "map_of (own_props (data conflicting)) ''httpStatus'' = Some (JNum 200)
      \<and> map_of (own_props (data conflicting)) ''httpStatusText'' = Some (JStr ''fine'')"
    by (simp add: conflicting_def)
  from srv body name args own whole_delete whole_create kept four show ?thesis
    by simp
qed

end
